(* ===== verification/Bank_Prelude.thy ===== *)
theory Bank_Prelude
  imports Main
begin

text \<open>
  Shared vocabulary of the development: the names of the model's types, the
  theorem collections the component theories feed, and generic lemmas on maps
  and lists that the component proofs share.

  Python dictionaries of the program are maps \<open>'k \<rightharpoonup> 'v\<close>.  The program mutates
  an object that it reached through a dictionary (\<open>self.accounts[k].balance -= x\<close>);
  the model writes such a statement as \<open>map_entry k f m\<close>, which reads the entry
  at \<open>k\<close> again at every statement, so that two statements on the same key see each
  other's effect exactly as two Python statements on one shared object do.
\<close>

named_theorems ledger_simps "equations that evaluate the ledger of an account"
named_theorems bank_inv "one-step preservation lemmas of the bank invariants"

type_synonym acct_no = string
type_synonym timestamp = string

definition map_entry :: "'k \<Rightarrow> ('v \<Rightarrow> 'v) \<Rightarrow> ('k \<rightharpoonup> 'v) \<Rightarrow> ('k \<rightharpoonup> 'v)" where
  "map_entry k f m = (case m k of None \<Rightarrow> m | Some v \<Rightarrow> m(k \<mapsto> f v))"

lemma map_entry_apply [simp]:
  "map_entry k f m k' = (if k' = k then map_option f (m k) else m k')"
  by (auto simp: map_entry_def split: option.splits)

lemma dom_map_entry [simp]: "dom (map_entry k f m) = dom m"
  by (auto simp: map_entry_def split: option.splits)

lemma map_entry_Some:
  "m k = Some v \<Longrightarrow> map_entry k f m = m(k \<mapsto> f v)"
  by (simp add: map_entry_def)

lemma map_entry_None:
  "m k = None \<Longrightarrow> map_entry k f m = m"
  by (simp add: map_entry_def)

lemma ran_map_entry_subset:
  "(\<And>v. P v \<Longrightarrow> P (f v)) \<Longrightarrow> \<forall>v\<in>ran m. P v \<Longrightarrow> \<forall>v\<in>ran (map_entry k f m). P v"
  by (auto simp: map_entry_def ran_def split: option.splits)

lemma ran_upd_subset:
  "\<forall>v\<in>ran m. P v \<Longrightarrow> P w \<Longrightarrow> \<forall>v\<in>ran (m(k \<mapsto> w)). P v"
  by (auto simp: ran_def)

lemma finite_dom_map_entry [simp]:
  "finite (dom (map_entry k f m)) = finite (dom m)"
  by simp

end
