(* ===== verification/Account_Number.thy ===== *)
theory Account_Number
  imports Bank_Prelude
begin

text \<open>
  Account numbers and PIN syntax (src/src/1.0/main.py).  \<open>Account.generate_account_number\<close>
  draws \<open>random.randint(10**9, 10**10-1)\<close> and returns \<open>str\<close> of it;
  \<open>Bank.create_account\<close> accepts a PIN when \<open>len(pin) == 4\<close> and \<open>pin.isdigit()\<close>.
  The random draw is an input of the model (\<open>r\<close>), constrained by
  \<open>account_number_draw\<close> to the range \<open>randint\<close> returns.  Python's \<open>str\<close> of a
  non-negative integer is \<open>nat_to_str\<close>; \<open>str.isdigit\<close> is modelled on ASCII
  characters.  The lemmas show that every draw gives a ten-digit decimal string and
  that the string determines the draw (\<open>str_to_nat\<close> is Python's \<open>int\<close>).
\<close>

definition digit_char :: "nat \<Rightarrow> char" where
  "digit_char d = ''0123456789'' ! d"

fun nat_to_str :: "nat \<Rightarrow> string" where
  "nat_to_str n =
     (if n < 10 then [digit_char n] else nat_to_str (n div 10) @ [digit_char (n mod 10)])"

declare nat_to_str.simps [simp del]

definition randint :: "nat \<Rightarrow> nat \<Rightarrow> nat \<Rightarrow> bool" where
  "randint lo hi r \<longleftrightarrow> lo \<le> r \<and> r \<le> hi"

definition account_number_draw :: "nat \<Rightarrow> bool" where
  "account_number_draw r \<longleftrightarrow> randint (10 ^ 9) (10 ^ 10 - 1) r"

definition generate_account_number :: "nat \<Rightarrow> acct_no" where
  "generate_account_number r = nat_to_str r"

definition is_digit_char :: "char \<Rightarrow> bool" where
  "is_digit_char c \<longleftrightarrow> 48 \<le> (of_char c :: nat) \<and> (of_char c :: nat) \<le> 57"

definition isdigit :: "string \<Rightarrow> bool" where
  "isdigit s \<longleftrightarrow> s \<noteq> [] \<and> list_all is_digit_char s"

definition pin_format_ok :: "string \<Rightarrow> bool" where
  "pin_format_ok p \<longleftrightarrow> \<not> (length p \<noteq> 4 \<or> \<not> isdigit p)"

definition digit_val :: "char \<Rightarrow> nat" where
  "digit_val c = of_char c - 48"

definition str_to_nat :: "string \<Rightarrow> nat" where
  "str_to_nat s = foldl (\<lambda>n c. 10 * n + digit_val c) 0 s"

subsection \<open>Digits\<close>

lemma of_char_digit_char [simp]: "d < 10 \<Longrightarrow> (of_char (digit_char d) :: nat) = 48 + d"
  by (auto simp: digit_char_def less_Suc_eq numeral_eq_Suc)

lemma is_digit_char_digit_char [simp]: "d < 10 \<Longrightarrow> is_digit_char (digit_char d)"
  by (simp add: is_digit_char_def)

lemma digit_val_digit_char [simp]: "d < 10 \<Longrightarrow> digit_val (digit_char d) = d"
  by (simp add: digit_val_def)

lemma nat_to_str_step:
  "10 \<le> n \<Longrightarrow> nat_to_str n = nat_to_str (n div 10) @ [digit_char (n mod 10)]"
  by (simp add: nat_to_str.simps [of n])

lemma nat_to_str_small [simp]: "n < 10 \<Longrightarrow> nat_to_str n = [digit_char n]"
  by (simp add: nat_to_str.simps [of n])

lemma nat_to_str_digits: "list_all is_digit_char (nat_to_str n)"
proof (induction n rule: nat_to_str.induct)
  case (1 n)
  then show ?case
    by (cases "n < 10") (simp_all add: nat_to_str_step)
qed

lemma nat_to_str_nonempty [simp]: "nat_to_str n \<noteq> []"
  by (cases "n < 10") (simp_all add: nat_to_str_step)

lemma isdigit_nat_to_str: "isdigit (nat_to_str n)"
  by (simp add: isdigit_def nat_to_str_digits)

lemma nat_to_str_length:
  "10 ^ k \<le> n \<Longrightarrow> n < 10 ^ Suc k \<Longrightarrow> length (nat_to_str n) = Suc k"
proof (induction k arbitrary: n)
  case 0
  then show ?case by simp
next
  case (Suc k)
  have "10 * 10 ^ k \<le> n" using Suc.prems(1) by simp
  then have "10 \<le> n" and "10 ^ k \<le> n div 10"
    using le_trans [of 10 "10 * 10 ^ k" n] by (auto simp: less_eq_div_iff_mult_less_eq mult.commute)
  moreover have "n div 10 < 10 ^ Suc k"
    using Suc.prems(2) by (simp add: div_less_iff_less_mult mult.commute)
  ultimately show ?case using Suc.IH by (simp add: nat_to_str_step)
qed

lemma str_to_nat_snoc: "str_to_nat (s @ [c]) = 10 * str_to_nat s + digit_val c"
  by (simp add: str_to_nat_def)

lemma str_to_nat_nat_to_str [simp]: "str_to_nat (nat_to_str n) = n"
proof (induction n rule: nat_to_str.induct)
  case (1 n)
  show ?case
  proof (cases "n < 10")
    case True
    then show ?thesis by (simp add: str_to_nat_def)
  next
    case False
    with "1.IH" show ?thesis by (simp add: nat_to_str_step str_to_nat_snoc)
  qed
qed

lemma inj_nat_to_str: "inj nat_to_str"
  by (rule inj_on_inverseI [where g = str_to_nat]) simp

lemma generate_account_number_wf:
  "account_number_draw r \<Longrightarrow> length (generate_account_number r) = 10 \<and> isdigit (generate_account_number r)"
  using nat_to_str_length [of 9 r]
  by (simp add: account_number_draw_def randint_def generate_account_number_def isdigit_nat_to_str)

lemma generate_account_number_inj:
  "generate_account_number r = generate_account_number r' \<longleftrightarrow> r = r'"
  using inj_nat_to_str by (auto simp: generate_account_number_def inj_eq)

subsection \<open>Account numbers\<close>

text \<open>
  C6: every account number the program generates is a string of exactly ten decimal
  digits, and reading it back as a number gives the draw, so the number lies in
  [1000000000, 9999999999] and different draws give different numbers.
\<close>

theorem account_number_format:
  assumes "account_number_draw r"
  shows "length (generate_account_number r) = 10 \<and> isdigit (generate_account_number r) \<and>
         str_to_nat (generate_account_number r) = r \<and>
         1000000000 \<le> str_to_nat (generate_account_number r) \<and>
         str_to_nat (generate_account_number r) \<le> 9999999999"
proof -
  have "10 ^ 9 \<le> r" "r < 10 ^ Suc 9"
    using assms by (simp_all add: account_number_draw_def randint_def)
  then have "length (nat_to_str r) = 10"
    using nat_to_str_length [of 9 r] by simp
  then show ?thesis
    using assms by (simp add: generate_account_number_def isdigit_nat_to_str account_number_draw_def randint_def)
qed

lemma account_number_format_witness:
  "account_number_draw 1234567890 \<and> generate_account_number 1234567890 = ''1234567890'' \<and>
   length (generate_account_number 1234567890) = 10"
proof -
  have d: "account_number_draw 1234567890"
    by (simp add: account_number_draw_def randint_def)
  have "generate_account_number 1234567890 = ''1234567890''"
    by (simp add: generate_account_number_def nat_to_str_step digit_char_def)
  then show ?thesis using d account_number_format [OF d] by simp
qed

end
