(* ===== verification/Account.thy ===== *)
theory Account
  imports Account_Number
begin

text \<open>
  The class \<open>Account\<close> of src/src/1.0/main.py (lines 14--50).  An account object is the
  record \<open>account\<close>; a transaction dictionary is the record \<open>transaction\<close> with the
  keys \<open>date\<close>, \<open>type\<close>, \<open>amount\<close>, \<open>balance\<close>.  The amounts are Python floats; the
  model is generic in the number type \<open>'m\<close> and the lemmas assume an ordered abelian
  group, that is exact arithmetic (rounding, NaN and infinities are not modelled).
  \<open>datetime.now()\<close> is the input \<open>now\<close>.  The string results of \<open>withdraw\<close>
  (and of the \<open>Bank\<close> methods) are the constructors of \<open>bank_error\<close>, whose
  \<open>error_message\<close> is the exact text the code returns.

  The invariant \<open>ledger_ok\<close> is the spec's ledger rule: replaying the recorded amounts
  from 0 reproduces every recorded balance snapshot and the current balance.
\<close>

record 'm transaction =
  t_date :: timestamp
  t_type :: string
  t_amount :: 'm
  t_balance :: 'm

record 'm account =
  account_number :: acct_no
  name :: string
  balance :: 'm
  pin :: string
  transactions :: "'m transaction list"

datatype bank_error =
    PIN_must_be_4_digits
  | Initial_deposit_must_be_positive
  | Invalid_account_number
  | Invalid_PIN
  | Insufficient_funds

fun error_message :: "bank_error \<Rightarrow> string" where
  "error_message PIN_must_be_4_digits = ''PIN must be 4 digits''"
| "error_message Initial_deposit_must_be_positive = ''Initial deposit must be positive''"
| "error_message Invalid_account_number = ''Invalid account number''"
| "error_message Invalid_PIN = ''Invalid PIN''"
| "error_message Insufficient_funds = ''Insufficient funds''"

definition add_transaction :: "timestamp \<Rightarrow> string \<Rightarrow> 'm \<Rightarrow> 'm account \<Rightarrow> 'm account" where
  "add_transaction now ty amt a =
     a\<lparr>transactions := transactions a @
        [\<lparr>t_date = now, t_type = ty, t_amount = amt, t_balance = balance a\<rparr>]\<rparr>"

definition new_account :: "nat \<Rightarrow> timestamp \<Rightarrow> string \<Rightarrow> string \<Rightarrow> 'm \<Rightarrow> 'm account" where
  "new_account r now nm p initial_deposit =
     add_transaction now ''Account opened'' initial_deposit
       \<lparr>account_number = generate_account_number r, name = nm, balance = initial_deposit,
        pin = p, transactions = []\<rparr>"

definition deposit :: "timestamp \<Rightarrow> 'm::plus \<Rightarrow> 'm account \<Rightarrow> 'm \<times> 'm account" where
  "deposit now amt a =
     (let a1 = a\<lparr>balance := balance a + amt\<rparr>;
          a2 = add_transaction now ''Deposit'' amt a1
      in (balance a2, a2))"

definition withdraw ::
  "timestamp \<Rightarrow> 'm::{ord, minus, uminus} \<Rightarrow> string \<Rightarrow> 'm account \<Rightarrow> bank_error + 'm \<times> 'm account" where
  "withdraw now amt p a =
     (if p \<noteq> pin a then Inl Invalid_PIN
      else if amt > balance a then Inl Insufficient_funds
      else
        let a1 = a\<lparr>balance := balance a - amt\<rparr>;
            a2 = add_transaction now ''Withdrawal'' (- amt) a1
        in Inr (balance a2, a2))"

definition get_statement :: "'m account \<Rightarrow> 'm transaction list" where
  "get_statement a = transactions a"

text \<open>An account as \<open>Account("Alice", "1111", 100)\<close> creates it, for the witnesses.\<close>

definition example_account :: "int account" where
  "example_account = new_account 1111111111 ''2024-01-01 09:00:00'' ''Alice'' ''1111'' 100"

subsection \<open>The ledger invariant\<close>

fun ledger_from :: "'m::plus \<Rightarrow> 'm transaction list \<Rightarrow> bool" where
  "ledger_from b [] = True"
| "ledger_from b (t # ts) = (t_balance t = b + t_amount t \<and> ledger_from (t_balance t) ts)"

definition replay :: "'m::plus \<Rightarrow> 'm transaction list \<Rightarrow> 'm" where
  "replay b ts = foldl (\<lambda>x t. x + t_amount t) b ts"

definition ledger_ok :: "'m::monoid_add account \<Rightarrow> bool" where
  "ledger_ok a \<longleftrightarrow> ledger_from 0 (transactions a) \<and> replay 0 (transactions a) = balance a"

lemma replay_snoc [simp, ledger_simps]: "replay b (ts @ [t]) = replay b ts + t_amount t"
  by (simp add: replay_def)

lemma ledger_from_snoc [ledger_simps]:
  "ledger_from b (ts @ [t]) \<longleftrightarrow> ledger_from b ts \<and> t_balance t = replay b ts + t_amount t"
proof (induction ts arbitrary: b)
  case Nil
  then show ?case by (simp add: replay_def)
next
  case (Cons u ts)
  have "replay b (u # ts) = replay (b + t_amount u) ts" by (simp add: replay_def)
  then show ?case using Cons.IH [of "t_balance u"] by (cases "t_balance u = b + t_amount u") simp_all
qed

lemma ledger_from_snoc2 [ledger_simps]:
  "ledger_from b (ts @ [t1, t2]) \<longleftrightarrow>
     ledger_from b ts \<and> t_balance t1 = replay b ts + t_amount t1 \<and>
     t_balance t2 = replay b ts + t_amount t1 + t_amount t2"
proof -
  have "ledger_from b (ts @ [t1, t2]) = ledger_from b ((ts @ [t1]) @ [t2])" by simp
  also have "\<dots> \<longleftrightarrow> ledger_from b (ts @ [t1]) \<and> t_balance t2 = replay b (ts @ [t1]) + t_amount t2"
    by (rule ledger_from_snoc)
  finally show ?thesis by (simp add: ledger_from_snoc)
qed

lemma add_transaction_sel [simp]:
  "balance (add_transaction now ty x a) = balance a"
  "account_number (add_transaction now ty x a) = account_number a"
  "pin (add_transaction now ty x a) = pin a"
  "name (add_transaction now ty x a) = name a"
  "transactions (add_transaction now ty x a) =
     transactions a @ [\<lparr>t_date = now, t_type = ty, t_amount = x, t_balance = balance a\<rparr>]"
  by (simp_all add: add_transaction_def)

text \<open>
  The one fact all account operations share: adding \<open>x\<close> to the balance and then
  recording \<open>x\<close> keeps the ledger.
\<close>

lemma ledger_ok_credit_record [bank_inv]:
  "ledger_ok a \<Longrightarrow> ledger_ok (add_transaction now ty x (a\<lparr>balance := balance a + x\<rparr>))"
  by (simp add: ledger_ok_def ledger_from_snoc)

lemma deposit_result [simp]:
  "deposit now amt a =
     (balance a + amt, add_transaction now ''Deposit'' amt (a\<lparr>balance := balance a + amt\<rparr>))"
  by (simp add: deposit_def)

lemma withdraw_Inr_iff:
  "withdraw now amt p a = Inr (v, a') \<longleftrightarrow>
     p = pin a \<and> \<not> amt > balance a \<and> v = balance a - amt \<and>
     a' = add_transaction now ''Withdrawal'' (- amt) (a\<lparr>balance := balance a - amt\<rparr>)"
  by (auto simp: withdraw_def Let_def)

lemma new_account_sel [simp]:
  "account_number (new_account r now nm p x) = generate_account_number r"
  "name (new_account r now nm p x) = nm"
  "pin (new_account r now nm p x) = p"
  "balance (new_account r now nm p x) = x"
  "transactions (new_account r now nm p x) =
     [\<lparr>t_date = now, t_type = ''Account opened'', t_amount = x, t_balance = x\<rparr>]"
  by (simp_all add: new_account_def)

lemma new_account_ledger_ok [bank_inv]: "ledger_ok (new_account r now nm p (x::'m::monoid_add))"
  by (simp add: ledger_ok_def replay_def)

lemma deposit_ledger_ok [bank_inv]: "ledger_ok a \<Longrightarrow> ledger_ok (snd (deposit now x a))"
  by (simp add: ledger_ok_credit_record)

lemma withdraw_ledger_ok [bank_inv]:
  fixes a :: "'m::ordered_ab_group_add account"
  shows "ledger_ok a \<Longrightarrow> withdraw now x p a = Inr (v, a') \<Longrightarrow> ledger_ok a'"
  using ledger_ok_credit_record [of a now "''Withdrawal''" "- x"] by (auto simp: withdraw_Inr_iff)

lemma withdraw_Inl_same:
  "withdraw now x p a = Inl e \<Longrightarrow> (e = Invalid_PIN \<and> p \<noteq> pin a) \<or> (e = Insufficient_funds \<and> p = pin a \<and> x > balance a)"
  by (auto simp: withdraw_def Let_def split: if_splits)

lemma example_account_sel [simp]:
  "account_number example_account = ''1111111111''"
  "pin example_account = ''1111''"
  "balance example_account = 100"
  "transactions example_account =
     [\<lparr>t_date = ''2024-01-01 09:00:00'', t_type = ''Account opened'', t_amount = 100, t_balance = 100\<rparr>]"
  by (simp_all add: example_account_def generate_account_number_def nat_to_str_step digit_char_def)

subsection \<open>Properties of the account operations\<close>

text \<open>
  C3: \<open>Account.withdraw\<close> refuses with "Invalid PIN" exactly when the PIN differs,
  refuses with "Insufficient funds" exactly when the PIN matches and the amount exceeds
  the balance, and succeeds otherwise.
\<close>

theorem withdraw_outcome:
  fixes a :: "'m::linordered_ab_group_add account"
  shows "(withdraw now amt p a = Inl Invalid_PIN \<longleftrightarrow> p \<noteq> pin a) \<and>
         (withdraw now amt p a = Inl Insufficient_funds \<longleftrightarrow> p = pin a \<and> balance a < amt) \<and>
         ((\<exists>r. withdraw now amt p a = Inr r) \<longleftrightarrow> p = pin a \<and> amt \<le> balance a)"
  by (auto simp: withdraw_def Let_def not_less)

text \<open>
  C13: a successful withdrawal returns the new balance, which is the old one less the
  amount and never negative, and appends one "Withdrawal" record with the negated
  amount and the new balance; number, name and PIN are kept.
\<close>

theorem withdraw_success:
  fixes a :: "'m::linordered_ab_group_add account"
  assumes "withdraw now amt p a = Inr (v, a')"
  shows "v = balance a - amt \<and> balance a' = v \<and> 0 \<le> v \<and>
         transactions a' = transactions a @
           [\<lparr>t_date = now, t_type = ''Withdrawal'', t_amount = - amt, t_balance = v\<rparr>] \<and>
         account_number a' = account_number a \<and> name a' = name a \<and> pin a' = pin a"
  using assms by (auto simp: withdraw_Inr_iff not_less)

lemma withdraw_success_witness:
  "withdraw ''2024-01-02 10:00:00'' (50::int) ''1111'' example_account =
     Inr (50, add_transaction ''2024-01-02 10:00:00'' ''Withdrawal'' (- 50)
                (example_account\<lparr>balance := 50\<rparr>)) \<and>
   (50::int) = balance example_account - 50 \<and> (0::int) \<le> 50"
  using withdraw_success [of "''2024-01-02 10:00:00''" "50::int" "''1111''" example_account]
  by (simp add: withdraw_def)

text \<open>
  C7: two deposits of \<open>x\<close> and then \<open>y\<close> leave the balance increased by
  \<open>x + y\<close> and append two "Deposit" records whose snapshots are the balance after each
  deposit (spec example: 100, two deposits of 50, snapshots 150 and 200).
\<close>

theorem deposit_twice:
  "fst (deposit now2 y (snd (deposit now1 x a))) = balance a + x + y \<and>
   transactions (snd (deposit now2 y (snd (deposit now1 x a)))) = transactions a @
     [\<lparr>t_date = now1, t_type = ''Deposit'', t_amount = x, t_balance = balance a + x\<rparr>,
      \<lparr>t_date = now2, t_type = ''Deposit'', t_amount = y, t_balance = balance a + x + y\<rparr>]"
  by simp

text \<open>
  C8: every account operation keeps the ledger invariant: a new account satisfies it,
  and a deposit or a successful withdrawal from an account that satisfies it yields one
  that does.
\<close>

theorem account_ops_keep_ledger:
  fixes a :: "'m::ordered_ab_group_add account"
  assumes "ledger_ok a"
  shows "ledger_ok (new_account r now nm p x) \<and> ledger_ok (snd (deposit now x a)) \<and>
         (withdraw now x p a = Inr (v, a') \<longrightarrow> ledger_ok a')"
  using assms by (auto intro: bank_inv)

lemma account_ops_keep_ledger_witness:
  "ledger_ok example_account \<and> ledger_ok (snd (deposit ''2024-01-02 10:00:00'' 25 example_account))"
  using account_ops_keep_ledger [of example_account 0 "''2024-01-02 10:00:00''" "''Bob''" "''2222''" 25]
  by (simp add: ledger_ok_def replay_def)

end
