(* ===== verification/Persistence.thy ===== *)
theory Persistence
  imports Account
begin

text \<open>
  The \<open>Bank\<close> object and its snapshot file (src/src/1.0/main.py lines 53--55 and
  84--104).  A bank is the record \<open>bank\<close> holding the dictionary \<open>accounts\<close>.
  The process state that the persistence layer touches is the record \<open>world\<close>: the
  global \<open>bank\<close> and the file \<open>bank_data.pkl\<close>.  The file is one of: absent, a
  pickle of a bank, or a file that \<open>pickle.load\<close> cannot read.  \<open>save_data\<close> overwrites
  the file with a pickle of the whole in-memory bank; \<open>load_data\<close> returns the
  pickled bank, or a fresh \<open>Bank()\<close> when the file is absent or unreadable (the
  \<open>print\<close> of the error is not modelled).  The byte format of pickle is not
  modelled: a pickle is the bank it holds, so reading back what was written returns
  it, which is the only property of pickle the program relies on.
\<close>

record 'm bank =
  accounts :: "acct_no \<rightharpoonup> 'm account"

datatype 'm bank_file = No_file | Pickle "'m bank" | Unreadable

record 'm world =
  bank :: "'m bank"
  bank_data :: "'m bank_file"

definition Bank :: "'m bank" where
  "Bank = \<lparr>accounts = Map.empty\<rparr>"

definition save_data :: "('m, 'z) world_scheme \<Rightarrow> ('m, 'z) world_scheme" where
  "save_data w = w\<lparr>bank_data := Pickle (bank w)\<rparr>"

fun load_data :: "'m bank_file \<Rightarrow> 'm bank" where
  "load_data No_file = Bank"
| "load_data (Pickle b) = b"
| "load_data Unreadable = Bank"

text \<open>The snapshot is in step with memory when reloading it gives the memory back.\<close>

definition persisted :: "('m, 'z) world_scheme \<Rightarrow> bool" where
  "persisted w \<longleftrightarrow> load_data (bank_data w) = bank w"

lemma save_data_sel [simp]:
  "bank (save_data w) = bank w"
  "bank_data (save_data w) = Pickle (bank w)"
  by (simp_all add: save_data_def)

lemma load_save [simp]: "load_data (bank_data (save_data w)) = bank w"
  by simp

lemma persisted_save_data [simp, bank_inv]: "persisted (save_data w)"
  by (simp add: persisted_def)

lemma accounts_Bank [simp]: "accounts Bank = Map.empty"
  by (simp add: Bank_def)

end
