(* ===== verification/Bank.thy ===== *)
theory Bank
  imports Persistence
begin

text \<open>
  The methods \<open>Bank.create_account\<close> and \<open>Bank.transfer\<close> (src/src/1.0/main.py lines
  57--82).  Both act on the process state \<open>world\<close>, because both end with
  \<open>self.save_data()\<close>.  A string result that signals failure is \<open>Inl\<close> of a
  \<open>bank_error\<close>; success is \<open>Inr\<close> with the new state (and, for
  \<open>create_account\<close>, the new account number).  Every statement of \<open>transfer\<close>
  that mutates an account reached through \<open>self.accounts[...]\<close> is one
  \<open>map_entry\<close>, so a transfer from an account to itself behaves as the Python
  aliasing makes it behave.
\<close>

definition create_account ::
  "nat \<Rightarrow> timestamp \<Rightarrow> string \<Rightarrow> string \<Rightarrow> 'm::{ord, zero} \<Rightarrow> ('m, 'z) world_scheme \<Rightarrow>
   bank_error + acct_no \<times> ('m, 'z) world_scheme" where
  "create_account r now nm p initial_deposit w =
     (if length p \<noteq> 4 \<or> \<not> isdigit p then Inl PIN_must_be_4_digits
      else if initial_deposit < 0 then Inl Initial_deposit_must_be_positive
      else
        let acc = new_account r now nm p initial_deposit;
            w1 = w\<lparr>bank := (bank w)\<lparr>accounts := (accounts (bank w))(account_number acc \<mapsto> acc)\<rparr>\<rparr>;
            w2 = save_data w1
        in Inr (account_number acc, w2))"

definition transfer ::
  "timestamp \<Rightarrow> acct_no \<Rightarrow> acct_no \<Rightarrow> 'm::{ord, plus, minus, uminus} \<Rightarrow> string \<Rightarrow>
   ('m, 'z) world_scheme \<Rightarrow> bank_error + ('m, 'z) world_scheme" where
  "transfer now from_acc to_acc amt p w =
     (let accts = accounts (bank w) in
      if from_acc \<notin> dom accts \<or> to_acc \<notin> dom accts then Inl Invalid_account_number
      else if pin (the (accts from_acc)) \<noteq> p then Inl Invalid_PIN
      else if balance (the (accts from_acc)) < amt then Inl Insufficient_funds
      else
        let m1 = map_entry from_acc (\<lambda>a. a\<lparr>balance := balance a - amt\<rparr>) accts;
            m2 = map_entry to_acc (\<lambda>a. a\<lparr>balance := balance a + amt\<rparr>) m1;
            m3 = map_entry from_acc (add_transaction now (''Transfer to '' @ to_acc) (- amt)) m2;
            m4 = map_entry to_acc (add_transaction now (''Transfer from '' @ from_acc) amt) m3
        in Inr (save_data (w\<lparr>bank := (bank w)\<lparr>accounts := m4\<rparr>\<rparr>)))"

definition balances :: "'m bank \<Rightarrow> acct_no \<rightharpoonup> 'm" where
  "balances b = (\<lambda>k. map_option balance (accounts b k))"

text \<open>
  The contract of a transfer on the abstract state, the balance of every account: the
  amount is taken from the source's balance, then added to the destination's balance as
  it reads after the debit (lines 75--76).  Both steps are the operations the code
  performs, so the contract holds for float amounts as well, a self-transfer included.
\<close>

definition move :: "acct_no \<Rightarrow> acct_no \<Rightarrow> 'm::{plus, minus} \<Rightarrow> (acct_no \<rightharpoonup> 'm) \<Rightarrow> (acct_no \<rightharpoonup> 'm)" where
  "move f t x \<beta> = (let \<beta>1 = \<beta>(f \<mapsto> the (\<beta> f) - x) in \<beta>1(t \<mapsto> the (\<beta>1 t) + x))"

text \<open>Alice (100) and Bob (0), saved, for the witnesses.\<close>

definition example_world :: "int world" where
  "example_world = save_data
     \<lparr>bank = \<lparr>accounts = [''1111111111'' \<mapsto> example_account,
        ''2222222222'' \<mapsto> new_account 2222222222 ''2024-01-01 09:30:00'' ''Bob'' ''2222'' 0]\<rparr>,
      bank_data = No_file\<rparr>"

definition bank_ledger_ok :: "'m::monoid_add bank \<Rightarrow> bool" where
  "bank_ledger_ok b \<longleftrightarrow> (\<forall>a\<in>ran (accounts b). ledger_ok a)"

subsection \<open>Transfer\<close>


lemma example_accounts_sel [simp]:
  "account_number (new_account 2222222222 now nm p x) = ''2222222222''"
  "accounts (bank example_world) = [''1111111111'' \<mapsto> example_account,
     ''2222222222'' \<mapsto> new_account 2222222222 ''2024-01-01 09:30:00'' ''Bob'' ''2222'' (0::int)]"
  by (simp_all add: generate_account_number_def nat_to_str_step digit_char_def example_world_def)

lemma transfer_distinct:
  assumes "f \<noteq> t" "accounts (bank w) f = Some a" "accounts (bank w) t = Some c"
    "pin a = p" "\<not> balance a < amt"
  shows "transfer now f t amt p w =
     Inr (save_data (w\<lparr>bank := (bank w)\<lparr>accounts := (accounts (bank w))
        (f \<mapsto> add_transaction now (''Transfer to '' @ t) (- amt) (a\<lparr>balance := balance a - amt\<rparr>),
         t \<mapsto> add_transaction now (''Transfer from '' @ f) amt (c\<lparr>balance := balance c + amt\<rparr>))\<rparr>\<rparr>))"
  using assms by (simp add: transfer_def Let_def map_entry_def fun_upd_twist domIff)

lemma transfer_self:
  assumes "accounts (bank w) f = Some a" "pin a = p" "\<not> balance a < amt"
  shows "transfer now f f amt p w =
     Inr (save_data (w\<lparr>bank := (bank w)\<lparr>accounts := (accounts (bank w))
        (f \<mapsto> add_transaction now (''Transfer from '' @ f) amt
               (add_transaction now (''Transfer to '' @ f) (- amt)
                 (a\<lparr>balance := balance a - amt + amt\<rparr>)))\<rparr>\<rparr>))"
  using assms by (simp add: transfer_def Let_def map_entry_def add_transaction_def domIff)

lemma transfer_Inr_cases:
  assumes "transfer now f t amt p w = Inr w'"
  obtains a c where "accounts (bank w) f = Some a" "accounts (bank w) t = Some c"
    "pin a = p" "\<not> balance a < amt"
  using assms by (auto simp: transfer_def Let_def split: if_splits)

lemma transfer_Inr_shape:
  "transfer now f t amt p w = Inr w' \<Longrightarrow> w' = save_data (w\<lparr>bank := bank w'\<rparr>)"
  by (auto simp: transfer_def Let_def save_data_def split: if_splits)

lemma create_account_Inr:
  assumes "pin_format_ok p" "\<not> x < 0"
  shows "create_account r now nm p x w =
    Inr (generate_account_number r, save_data (w\<lparr>bank := (bank w)\<lparr>accounts :=
      (accounts (bank w))(generate_account_number r \<mapsto> new_account r now nm p x)\<rparr>\<rparr>))"
  using assms by (simp add: create_account_def pin_format_ok_def)

lemma create_account_Inr_cases:
  assumes "create_account r now nm p x w = Inr (n, w')"
  shows "pin_format_ok p \<and> \<not> x < 0 \<and> n = generate_account_number r \<and>
    w' = save_data (w\<lparr>bank := (bank w)\<lparr>accounts :=
      (accounts (bank w))(generate_account_number r \<mapsto> new_account r now nm p x)\<rparr>\<rparr>)"
  using assms by (auto simp: create_account_def pin_format_ok_def split: if_splits)


text \<open>
  C1: a transfer between two different existing accounts, with the source's PIN and an
  amount not above the source balance, succeeds; the source is debited and the
  destination credited by the amount, each gets one transaction record whose amount is
  signed and whose snapshot is its own post-transfer balance, no other account changes,
  and the new state is saved.
\<close>
theorem transfer_success:
  fixes amt :: "'m::linordered_ab_group_add"
  assumes "from_acc \<noteq> to_acc" "accounts (bank w) from_acc = Some a"
    "accounts (bank w) to_acc = Some c" "pin a = p" "amt \<le> balance a"
  shows "\<exists>w'. transfer now from_acc to_acc amt p w = Inr w' \<and>
    accounts (bank w') from_acc = Some (a\<lparr>balance := balance a - amt, transactions := transactions a @
      [\<lparr>t_date = now, t_type = ''Transfer to '' @ to_acc, t_amount = - amt, t_balance = balance a - amt\<rparr>]\<rparr>) \<and>
    accounts (bank w') to_acc = Some (c\<lparr>balance := balance c + amt, transactions := transactions c @
      [\<lparr>t_date = now, t_type = ''Transfer from '' @ from_acc, t_amount = amt, t_balance = balance c + amt\<rparr>]\<rparr>) \<and>
    (\<forall>k. k \<noteq> from_acc \<longrightarrow> k \<noteq> to_acc \<longrightarrow> accounts (bank w') k = accounts (bank w) k) \<and>
    bank_data w' = Pickle (bank w')"
  using transfer_distinct [OF assms(1-4), of amt now] assms(1,5)
  by (simp add: not_less add_transaction_def)

lemma transfer_success_witness:
  "\<exists>w'. transfer ''2024-01-02 12:00:00'' ''1111111111'' ''2222222222'' (40::int) ''1111'' example_world = Inr w' \<and>
    balance (the (accounts (bank w') ''1111111111'')) = 60 \<and>
    balance (the (accounts (bank w') ''2222222222'')) = 40"
proof -
  have h: "''1111111111'' \<noteq> ''2222222222''"
    "accounts (bank example_world) ''1111111111'' = Some example_account"
    "accounts (bank example_world) ''2222222222'' =
       Some (new_account 2222222222 ''2024-01-01 09:30:00'' ''Bob'' ''2222'' 0)"
    "pin example_account = ''1111''" "(40::int) \<le> balance example_account"
    by simp_all
  from transfer_success [OF h, of "''2024-01-02 12:00:00''"] show ?thesis
    by (elim exE conjE) (rule exI, rule conjI, assumption, simp)
qed
text \<open>
  C2: a transfer fails with "Invalid account number" when either account is missing,
  otherwise with "Invalid PIN" when the PIN is not the source's, otherwise with
  "Insufficient funds" when the source balance is below the amount, and in no other case.
\<close>
theorem transfer_error:
  "transfer now from_acc to_acc amt p w = Inl e \<longleftrightarrow>
     (if accounts (bank w) from_acc = None \<or> accounts (bank w) to_acc = None then e = Invalid_account_number
      else if pin (the (accounts (bank w) from_acc)) \<noteq> p then e = Invalid_PIN
      else balance (the (accounts (bank w) from_acc)) < amt \<and> e = Insufficient_funds)"
  by (auto simp: transfer_def Let_def)

lemma transfer_error_witness:
  "transfer ''t'' ''1111111111'' ''3333333333'' (40::int) ''1111'' example_world = Inl Invalid_account_number \<and>
   transfer ''t'' ''1111111111'' ''2222222222'' (40::int) ''9999'' example_world = Inl Invalid_PIN \<and>
   transfer ''t'' ''1111111111'' ''2222222222'' (400::int) ''1111'' example_world = Inl Insufficient_funds"
  using transfer_error [of "''t''" "''1111111111''" "''3333333333''" "40::int" "''1111''" example_world]
    transfer_error [of "''t''" "''1111111111''" "''2222222222''" "40::int" "''9999''" example_world]
    transfer_error [of "''t''" "''1111111111''" "''2222222222''" "400::int" "''1111''" example_world]
  by simp

text \<open>
  C4: \<open>Bank.create_account\<close> fails with "PIN must be 4 digits" exactly when the PIN is
  not four decimal digits, and otherwise with "Initial deposit must be positive" exactly
  when the initial deposit is negative.
\<close>
theorem create_account_error:
  "create_account r now nm p x w = Inl e \<longleftrightarrow>
     (\<not> pin_format_ok p \<and> e = PIN_must_be_4_digits) \<or>
     (pin_format_ok p \<and> x < 0 \<and> e = Initial_deposit_must_be_positive)"
  by (auto simp: create_account_def pin_format_ok_def Let_def)

lemma create_account_error_witness:
  "create_account 1234567890 ''t'' ''Alice'' ''12a4'' (100::int) example_world = Inl PIN_must_be_4_digits \<and>
   create_account 1234567890 ''t'' ''Alice'' ''123'' (100::int) example_world = Inl PIN_must_be_4_digits \<and>
   create_account 1234567890 ''t'' ''Alice'' ''1234'' (-1::int) example_world = Inl Initial_deposit_must_be_positive"
  by (intro conjI create_account_error [THEN iffD2])
     (simp_all add: pin_format_ok_def isdigit_def is_digit_char_def)

lemma transfer_Inr_accounts:
  assumes "transfer now f t amt p w = Inr w'"
  obtains a c where "accounts (bank w) f = Some a" "accounts (bank w) t = Some c"
    "pin a = p" "\<not> balance a < amt" "bank_data w' = Pickle (bank w')"
    "f \<noteq> t \<Longrightarrow> accounts (bank w') = (accounts (bank w))
        (f \<mapsto> add_transaction now (''Transfer to '' @ t) (- amt) (a\<lparr>balance := balance a - amt\<rparr>),
         t \<mapsto> add_transaction now (''Transfer from '' @ f) amt (c\<lparr>balance := balance c + amt\<rparr>))"
    "f = t \<Longrightarrow> accounts (bank w') = (accounts (bank w))
        (f \<mapsto> add_transaction now (''Transfer from '' @ f) amt
               (add_transaction now (''Transfer to '' @ f) (- amt)
                 (a\<lparr>balance := balance a - amt + amt\<rparr>)))"
proof -
  obtain a c where ac: "accounts (bank w) f = Some a" "accounts (bank w) t = Some c"
    "pin a = p" "\<not> balance a < amt"
    using assms by (rule transfer_Inr_cases)
  have w': "w' = projr (transfer now f t amt p w)" using assms by simp
  show ?thesis
  proof (rule that [OF ac])
    show "bank_data w' = Pickle (bank w')"
      using assms by (auto simp: transfer_def Let_def split: if_splits)
  next
    assume ft: "f \<noteq> t"
    then show "accounts (bank w') = (accounts (bank w))
        (f \<mapsto> add_transaction now (''Transfer to '' @ t) (- amt) (a\<lparr>balance := balance a - amt\<rparr>),
         t \<mapsto> add_transaction now (''Transfer from '' @ f) amt (c\<lparr>balance := balance c + amt\<rparr>))"
      unfolding w' using transfer_distinct [OF ft ac] by simp
  next
    assume "f = t"
    then show "accounts (bank w') = (accounts (bank w))
        (f \<mapsto> add_transaction now (''Transfer from '' @ f) amt
               (add_transaction now (''Transfer to '' @ f) (- amt)
                 (a\<lparr>balance := balance a - amt + amt\<rparr>)))"
      unfolding w' using transfer_self [OF ac(1,3,4)] by simp
  qed
qed

lemma example_world_ledger_ok: "bank_ledger_ok (bank example_world)"
  by (simp add: bank_ledger_ok_def ledger_ok_def replay_def)

lemma example_transfer:
  "transfer now ''1111111111'' ''2222222222'' (x::int) ''1111'' example_world =
     (if 100 < x then Inl Insufficient_funds else
     Inr (save_data (example_world\<lparr>bank := (bank example_world)\<lparr>accounts := (accounts (bank example_world))
        (''1111111111'' \<mapsto> add_transaction now (''Transfer to '' @ ''2222222222'') (- x) (example_account\<lparr>balance := 100 - x\<rparr>),
         ''2222222222'' \<mapsto> add_transaction now (''Transfer from '' @ ''1111111111'') x
            ((new_account 2222222222 ''2024-01-01 09:30:00'' ''Bob'' ''2222'' 0)\<lparr>balance := 0 + x\<rparr>))\<rparr>\<rparr>)))"
proof (cases "100 < x")
  case True
  then show ?thesis by (simp add: transfer_def)
next
  case False
  then show ?thesis
    by (subst transfer_distinct [where a = example_account and c = "new_account 2222222222 ''2024-01-01 09:30:00'' ''Bob'' ''2222'' 0"]) simp_all
qed

text \<open>
  C5: \<open>Bank.create_account\<close> with a four-digit PIN and a non-negative initial deposit
  succeeds with the drawn account number; the stored account has the given name, PIN and
  balance and exactly one "Account opened" record of the deposit; no other account
  changes and the new state is saved.
\<close>
theorem create_account_success:
  fixes x :: "'m::linordered_ab_group_add"
  assumes "pin_format_ok p" "0 \<le> x"
  shows "\<exists>w'. create_account r now nm p x w = Inr (generate_account_number r, w') \<and>
     accounts (bank w') (generate_account_number r) = Some
       \<lparr>account_number = generate_account_number r, name = nm, balance = x, pin = p,
        transactions = [\<lparr>t_date = now, t_type = ''Account opened'', t_amount = x, t_balance = x\<rparr>]\<rparr> \<and>
     (\<forall>k. k \<noteq> generate_account_number r \<longrightarrow> accounts (bank w') k = accounts (bank w) k) \<and>
     bank_data w' = Pickle (bank w')"
  using create_account_Inr [of p x r now nm w] assms by (simp add: new_account_def add_transaction_def)

lemma create_account_success_witness:
  "\<exists>w'. create_account 1234567890 ''2024-01-03 08:00:00'' ''Alice'' ''1234'' (500::int) example_world =
     Inr (''1234567890'', w') \<and>
     balance (the (accounts (bank w') ''1234567890'')) = 500 \<and>
     length (transactions (the (accounts (bank w') ''1234567890''))) = 1"
proof -
  have h: "pin_format_ok ''1234''" "(0::int) \<le> 500"
    by (simp_all add: pin_format_ok_def isdigit_def is_digit_char_def)
  have n: "generate_account_number 1234567890 = ''1234567890''"
    by (simp add: generate_account_number_def nat_to_str_step digit_char_def)
  from create_account_success [OF h, of 1234567890 "''2024-01-03 08:00:00''" "''Alice''" example_world]
  show ?thesis unfolding n
    by (elim exE conjE) (rule exI, rule conjI, assumption, simp)
qed

text \<open>
  A transfer between two different accounts keeps the ledger invariant of every
  account of the bank (used by the server-level ledger property in Server).
\<close>
lemma transfer_keeps_ledger:
  fixes w :: "('m::linordered_ab_group_add, 'z) world_scheme"
  assumes "bank_ledger_ok (bank w)" "from_acc \<noteq> to_acc"
    "transfer now from_acc to_acc amt p w = Inr w'"
  shows "bank_ledger_ok (bank w')"
proof -
  obtain a c where ac: "accounts (bank w) from_acc = Some a" "accounts (bank w) to_acc = Some c"
    and m: "accounts (bank w') = (accounts (bank w))
        (from_acc \<mapsto> add_transaction now (''Transfer to '' @ to_acc) (- amt) (a\<lparr>balance := balance a - amt\<rparr>),
         to_acc \<mapsto> add_transaction now (''Transfer from '' @ from_acc) amt (c\<lparr>balance := balance c + amt\<rparr>))"
    using assms(3) by (rule transfer_Inr_accounts) (use assms(2) in blast)+
  have all: "\<forall>v\<in>ran (accounts (bank w)). ledger_ok v"
    using assms(1) unfolding bank_ledger_ok_def .
  have "ledger_ok a" "ledger_ok c"
    using all ac by (blast intro: ranI)+
  then have A: "ledger_ok (add_transaction now (''Transfer to '' @ to_acc) (- amt) (a\<lparr>balance := balance a - amt\<rparr>))"
    and C: "ledger_ok (add_transaction now (''Transfer from '' @ from_acc) amt (c\<lparr>balance := balance c + amt\<rparr>))"
    using ledger_ok_credit_record [of a now "''Transfer to '' @ to_acc" "- amt"]
      ledger_ok_credit_record [of c now "''Transfer from '' @ from_acc" amt] by simp_all
  show ?thesis
    unfolding bank_ledger_ok_def m by (intro ran_upd_subset all A C)
qed

text \<open>
  C10: a transfer from an account to itself with a non-zero amount succeeds and appends
  two records that both carry, as their snapshot, the balance computed after the credit,
  (balance - amount) + amount; the "Transfer to" record's snapshot is therefore not the
  balance after the debit, the "Transfer from" record's snapshot is not the previous
  snapshot plus its amount, and the ledger invariant of that account fails.
\<close>
theorem self_transfer_breaks_ledger:
  fixes amt :: "'m::linordered_ab_group_add"
  assumes "accounts (bank w) k = Some a" "pin a = p" "amt \<le> balance a" "amt \<noteq> 0"
  shows "\<exists>w'. transfer now k k amt p w = Inr w' \<and>
     transactions (the (accounts (bank w') k)) = transactions a @
       [\<lparr>t_date = now, t_type = ''Transfer to '' @ k, t_amount = - amt, t_balance = balance a - amt + amt\<rparr>,
        \<lparr>t_date = now, t_type = ''Transfer from '' @ k, t_amount = amt, t_balance = balance a - amt + amt\<rparr>] \<and>
     \<not> ledger_ok (the (accounts (bank w') k))"
proof -
  let ?a' = "add_transaction now (''Transfer from '' @ k) amt
               (add_transaction now (''Transfer to '' @ k) (- amt) (a\<lparr>balance := balance a - amt + amt\<rparr>))"
  have tr: "transfer now k k amt p w =
      Inr (save_data (w\<lparr>bank := (bank w)\<lparr>accounts := (accounts (bank w))(k \<mapsto> ?a')\<rparr>\<rparr>))"
    using transfer_self [OF assms(1,2)] assms(3) by (simp add: not_less)
  have "\<not> ledger_ok ?a'"
    using assms(4) by (simp add: ledger_ok_def ledger_from_snoc2)
  then show ?thesis using tr by (simp add: add_transaction_def)
qed

lemma self_transfer_breaks_ledger_witness:
  "ledger_ok example_account \<and>
   (\<exists>w'. transfer ''t'' ''1111111111'' ''1111111111'' (40::int) ''1111'' example_world = Inr w' \<and>
      map t_balance (transactions (the (accounts (bank w') ''1111111111''))) = [100, 100, 100] \<and>
      \<not> ledger_ok (the (accounts (bank w') ''1111111111'')))"
proof -
  have "\<exists>w'. transfer ''t'' ''1111111111'' ''1111111111'' (40::int) ''1111'' example_world = Inr w' \<and>
     transactions (the (accounts (bank w') ''1111111111'')) = transactions example_account @
       [\<lparr>t_date = ''t'', t_type = ''Transfer to '' @ ''1111111111'', t_amount = - 40, t_balance = 100 - 40 + 40\<rparr>,
        \<lparr>t_date = ''t'', t_type = ''Transfer from '' @ ''1111111111'', t_amount = 40, t_balance = 100 - 40 + 40\<rparr>] \<and>
     \<not> ledger_ok (the (accounts (bank w') ''1111111111''))"
    using self_transfer_breaks_ledger [of example_world "''1111111111''" example_account "''1111''" "40::int" "''t''"]
    by simp
  then show ?thesis by (auto simp: ledger_ok_def replay_def)
qed

text \<open>
  C11: \<open>Bank.transfer\<close> does not check the sign of the amount: a negative amount between
  two accounts succeeds with the source's PIN only and lowers the destination balance
  while raising the source's.
\<close>
theorem negative_transfer_debits_destination:
  fixes amt :: "'m::linordered_ab_group_add"
  assumes "from_acc \<noteq> to_acc" "accounts (bank w) from_acc = Some a"
    "accounts (bank w) to_acc = Some c" "pin a = p" "amt < 0" "amt \<le> balance a"
  shows "\<exists>w'. transfer now from_acc to_acc amt p w = Inr w' \<and>
     balance (the (accounts (bank w') to_acc)) < balance c \<and>
     balance a < balance (the (accounts (bank w') from_acc))"
  using transfer_distinct [OF assms(1-4), of amt now] assms(1,5,6) by (simp add: not_less)

lemma negative_transfer_debits_destination_witness:
  "\<exists>w'. transfer ''t'' ''1111111111'' ''2222222222'' (-40::int) ''1111'' example_world = Inr w' \<and>
     balance (the (accounts (bank w') ''2222222222'')) < 0 \<and>
     100 < balance (the (accounts (bank w') ''1111111111''))"
  using negative_transfer_debits_destination [of "''1111111111''" "''2222222222''" example_world
      example_account "new_account 2222222222 ''2024-01-01 09:30:00'' ''Bob'' ''2222'' 0" "''1111''" "-40::int" "''t''"]
  by simp


text \<open>
  C12: refinement of the abstract contract: the balances after a successful transfer are
  the balances before it, moved by \<open>move\<close>, for distinct accounts and for a
  self-transfer alike; the transaction records play no part in the balances.
\<close>
theorem transfer_refines_move:
  fixes w :: "('m::linordered_ab_group_add, 'z) world_scheme"
  assumes "transfer now f t amt p w = Inr w'"
  shows "balances (bank w') = move f t amt (balances (bank w))"
proof -
  obtain a c where ac: "accounts (bank w) f = Some a" "accounts (bank w) t = Some c"
    and ne: "f \<noteq> t \<Longrightarrow> accounts (bank w') = (accounts (bank w))
        (f \<mapsto> add_transaction now (''Transfer to '' @ t) (- amt) (a\<lparr>balance := balance a - amt\<rparr>),
         t \<mapsto> add_transaction now (''Transfer from '' @ f) amt (c\<lparr>balance := balance c + amt\<rparr>))"
    and eq: "f = t \<Longrightarrow> accounts (bank w') = (accounts (bank w))
        (f \<mapsto> add_transaction now (''Transfer from '' @ f) amt
               (add_transaction now (''Transfer to '' @ f) (- amt)
                 (a\<lparr>balance := balance a - amt + amt\<rparr>)))"
    using assms by (rule transfer_Inr_accounts) blast+
  show ?thesis
  proof (cases "f = t")
    case True
    then show ?thesis
      using ac(1) by (auto simp: balances_def move_def eq fun_eq_iff)
  next
    case False
    then show ?thesis
      using ac by (auto simp: balances_def move_def ne fun_eq_iff)
  qed
qed

lemma transfer_refines_move_witness:
  "\<exists>w'. transfer ''t'' ''1111111111'' ''2222222222'' (40::int) ''1111'' example_world = Inr w' \<and>
     balances (bank w') = [''1111111111'' \<mapsto> 60, ''2222222222'' \<mapsto> 40]"
proof -
  have "balances (bank example_world) = [''1111111111'' \<mapsto> (100::int), ''2222222222'' \<mapsto> 0]"
    by (auto simp: balances_def fun_eq_iff)
  then show ?thesis
    using transfer_refines_move [OF example_transfer [of "''t''" 40, simplified]]
    by (simp add: example_transfer move_def)
qed

end
