(* ===== verification/Routes.thy ===== *)
theory Routes
  imports Bank
begin

text \<open>
  The Flask route handlers (src/src/1.0/main.py lines 106--232).  A handler is a function of the request's form (\<open>None\<close> for GET, \<open>Some\<close> of the
  form fields for POST), of the session's \<open>account_number\<close> entry, and of the process
  state \<open>world\<close>; it returns the new state, the new session entry, the response (a
  redirect to an endpoint or a rendered template with its variables) and the flashed
  messages.  \<open>float(request.form[...])\<close> of a text that is not a number is a form
  value \<open>None\<close>; that \<open>ValueError\<close> and the \<open>KeyError\<close> of
  \<open>bank.accounts[session['account_number']]\<close> are unhandled in the code and end the
  request with HTTP 500: the \<open>Inl\<close> results of type \<open>failure\<close>.  The guard
  \<open>if 'account_number' not in session\<close>, repeated in every protected route, is
  \<open>login_guard\<close>.  The balance formatting \<open>:.2f\<close> of the flashed messages is not
  modelled: those messages carry the number.

  The lemmas give the shape of each handler's result (the session entry is kept; a
  changed state is the bank operation's result, saved) and the behaviour of the deposit,
  withdraw, create-account and transfer routes on every branch.
\<close>

datatype severity = Success | Error | Info

datatype 'm message = Msg string | Deposit_successful 'm | Withdrawal_successful 'm

datatype endpoint = Index | Create_account_page | Login_page | Dashboard_page
  | Deposit_page | Withdraw_page | Transfer_page | Statement_page

datatype 'm response =
    Redirect endpoint
  | Render endpoint
  | Render_dashboard "'m account"
  | Render_statement "'m transaction list"

datatype failure = Value_error | Key_error

type_synonym 'm flash = "severity \<times> 'm message"

type_synonym ('m, 'z) handled =
  "('m, 'z) world_scheme \<times> acct_no option \<times> 'm response \<times> 'm flash list"

definition startswith :: "string \<Rightarrow> string \<Rightarrow> bool" where
  "startswith s p \<longleftrightarrow> take (length p) s = p"

definition index :: "acct_no option \<Rightarrow> ('m, 'z) world_scheme \<Rightarrow> failure + ('m, 'z) handled" where
  "index sess w = Inr (w, sess, Render Index, [])"

definition create_account_view ::
  "timestamp \<Rightarrow> nat \<Rightarrow> (string \<times> string \<times> 'm option) option \<Rightarrow> acct_no option \<Rightarrow>
   ('m::{ord, zero}, 'z) world_scheme \<Rightarrow> failure + ('m, 'z) handled" where
  "create_account_view now r form sess w =
     (case form of
        None \<Rightarrow> Inr (w, sess, Render Create_account_page, [])
      | Some (nm, p, dep) \<Rightarrow>
          (case dep of
             None \<Rightarrow> Inl Value_error
           | Some initial_deposit \<Rightarrow>
               (let res = create_account r now nm p initial_deposit w;
                    result = (case res of Inl e \<Rightarrow> error_message e | Inr (n, _) \<Rightarrow> n);
                    w' = (case res of Inl _ \<Rightarrow> w | Inr (_, w1) \<Rightarrow> w1)
                in if startswith result ''PIN'' \<or> startswith result ''Initial''
                   then Inr (w', sess, Redirect Create_account_page, [(Error, Msg result)])
                   else Inr (w', sess, Redirect Index,
                     [(Success, Msg (''Account created successfully! Your account number is: '' @ result))]))))"

definition login ::
  "(acct_no \<times> string) option \<Rightarrow> acct_no option \<Rightarrow> ('m, 'z) world_scheme \<Rightarrow> failure + ('m, 'z) handled" where
  "login form sess w =
     (case form of
        None \<Rightarrow> Inr (w, sess, Render Login_page, [])
      | Some (n, p) \<Rightarrow>
          (if n \<in> dom (accounts (bank w)) \<and> pin (the (accounts (bank w) n)) = p
           then Inr (w, Some n, Redirect Dashboard_page, [(Success, Msg ''Login successful!'')])
           else Inr (w, sess, Render Login_page, [(Error, Msg ''Invalid account number or PIN'')])))"

definition logout :: "acct_no option \<Rightarrow> ('m, 'z) world_scheme \<Rightarrow> failure + ('m, 'z) handled" where
  "logout sess w = Inr (w, None, Redirect Index, [(Info, Msg ''You have been logged out'')])"

definition login_guard ::
  "acct_no option \<Rightarrow> ('m, 'z) world_scheme \<Rightarrow> (acct_no \<Rightarrow> failure + ('m, 'z) handled) \<Rightarrow>
   failure + ('m, 'z) handled" where
  "login_guard sess w k =
     (case sess of
        None \<Rightarrow> Inr (w, sess, Redirect Login_page, [(Error, Msg ''Please login first'')])
      | Some n \<Rightarrow> k n)"

definition lookup_account :: "('m, 'z) world_scheme \<Rightarrow> acct_no \<Rightarrow> failure + 'm account" where
  "lookup_account w n = (case accounts (bank w) n of None \<Rightarrow> Inl Key_error | Some a \<Rightarrow> Inr a)"

definition dashboard :: "acct_no option \<Rightarrow> ('m, 'z) world_scheme \<Rightarrow> failure + ('m, 'z) handled" where
  "dashboard sess w =
     login_guard sess w (\<lambda>n.
       (case lookup_account w n of
          Inl e \<Rightarrow> Inl e
        | Inr a \<Rightarrow> Inr (w, sess, Render_dashboard a, [])))"

definition store_account :: "acct_no \<Rightarrow> 'm account \<Rightarrow> ('m, 'z) world_scheme \<Rightarrow> ('m, 'z) world_scheme" where
  "store_account n a w = w\<lparr>bank := (bank w)\<lparr>accounts := (accounts (bank w))(n \<mapsto> a)\<rparr>\<rparr>"

definition deposit_view ::
  "timestamp \<Rightarrow> 'm option option \<Rightarrow> acct_no option \<Rightarrow> ('m::{ord, zero, plus}, 'z) world_scheme \<Rightarrow>
   failure + ('m, 'z) handled" where
  "deposit_view now form sess w =
     login_guard sess w (\<lambda>n.
       (case form of
          None \<Rightarrow> Inr (w, sess, Render Deposit_page, [])
        | Some None \<Rightarrow> Inl Value_error
        | Some (Some amount) \<Rightarrow>
            (if amount \<le> 0
             then Inr (w, sess, Render Deposit_page, [(Error, Msg ''Amount must be positive'')])
             else
               (case lookup_account w n of
                  Inl e \<Rightarrow> Inl e
                | Inr a \<Rightarrow>
                    (let (new_balance, a') = deposit now amount a;
                         w1 = save_data (store_account n a' w)
                     in Inr (w1, sess, Redirect Dashboard_page,
                             [(Success, Deposit_successful new_balance)]))))))"

definition withdraw_view ::
  "timestamp \<Rightarrow> ('m option \<times> string) option \<Rightarrow> acct_no option \<Rightarrow>
   ('m::{ord, zero, minus, uminus}, 'z) world_scheme \<Rightarrow> failure + ('m, 'z) handled" where
  "withdraw_view now form sess w =
     login_guard sess w (\<lambda>n.
       (case form of
          None \<Rightarrow> Inr (w, sess, Render Withdraw_page, [])
        | Some (None, _) \<Rightarrow> Inl Value_error
        | Some (Some amount, p) \<Rightarrow>
            (if amount \<le> 0
             then Inr (w, sess, Render Withdraw_page, [(Error, Msg ''Amount must be positive'')])
             else
               (case lookup_account w n of
                  Inl e \<Rightarrow> Inl e
                | Inr a \<Rightarrow>
                    (case withdraw now amount p a of
                       Inr (v, a') \<Rightarrow>
                         Inr (save_data (store_account n a' w), sess, Redirect Dashboard_page,
                              [(Success, Withdrawal_successful v)])
                     | Inl e \<Rightarrow>
                         Inr (w, sess, Render Withdraw_page, [(Error, Msg (error_message e))]))))))"

definition transfer_view ::
  "timestamp \<Rightarrow> (acct_no \<times> 'm option \<times> string) option \<Rightarrow> acct_no option \<Rightarrow>
   ('m::{ord, plus, minus, uminus}, 'z) world_scheme \<Rightarrow> failure + ('m, 'z) handled" where
  "transfer_view now form sess w =
     login_guard sess w (\<lambda>n.
       (case form of
          None \<Rightarrow> Inr (w, sess, Render Transfer_page, [])
        | Some (_, None, _) \<Rightarrow> Inl Value_error
        | Some (to_account, Some amount, p) \<Rightarrow>
            (case transfer now n to_account amount p w of
               Inr w' \<Rightarrow>
                 Inr (w', sess, Redirect Dashboard_page,
                      [(Success, Msg ''Transfer completed successfully!'')])
             | Inl e \<Rightarrow>
                 Inr (w, sess, Render Transfer_page, [(Error, Msg (error_message e))]))))"

definition statement :: "acct_no option \<Rightarrow> ('m, 'z) world_scheme \<Rightarrow> failure + ('m, 'z) handled" where
  "statement sess w =
     login_guard sess w (\<lambda>n.
       (case lookup_account w n of
          Inl e \<Rightarrow> Inl e
        | Inr a \<Rightarrow> Inr (w, sess, Render_statement (get_statement a), [])))"

subsection \<open>Shape of each handler's result\<close>

text \<open>
  Every handler leaves the session entry as it was; a handler that changes the state
  does it through the bank operation it calls, followed by \<open>bank.save_data()\<close>.
\<close>

lemma views_keep_session:
  "create_account_view now r form sess w = Inr (w', sess', resp, fl) \<Longrightarrow> sess' = sess"
  "deposit_view now f2 sess w = Inr (w', sess', resp, fl) \<Longrightarrow> sess' = sess"
  "withdraw_view now f3 sess w = Inr (w', sess', resp, fl) \<Longrightarrow> sess' = sess"
  "transfer_view now f4 sess w = Inr (w', sess', resp, fl) \<Longrightarrow> sess' = sess"
  by (auto simp: create_account_view_def deposit_view_def withdraw_view_def transfer_view_def
      login_guard_def Let_def split: option.splits sum.splits if_splits prod.splits)

lemma digits_not_startswith:
  "list_all is_digit_char s \<Longrightarrow> \<not> is_digit_char c \<Longrightarrow> \<not> startswith s (c # cs)"
  by (cases s) (auto simp: startswith_def)

lemma generated_not_error_prefix:
  "\<not> startswith (generate_account_number r) ''PIN'' \<and> \<not> startswith (generate_account_number r) ''Initial''"
  using digits_not_startswith nat_to_str_digits by (simp add: generate_account_number_def is_digit_char_def)

lemma create_account_view_success:
  assumes "pin_format_ok p" "\<not> x < 0"
  shows "create_account_view now r (Some (nm, p, Some x)) sess w =
    Inr (save_data (w\<lparr>bank := (bank w)\<lparr>accounts :=
           (accounts (bank w))(generate_account_number r \<mapsto> new_account r now nm p x)\<rparr>\<rparr>),
         sess, Redirect Index,
         [(Success, Msg (''Account created successfully! Your account number is: '' @ generate_account_number r))])"
  using assms generated_not_error_prefix [of r] by (simp add: create_account_view_def create_account_Inr Let_def)

lemma create_account_view_Inr:
  assumes "create_account_view now r form sess w = Inr (w', sess', resp, fl)"
  shows "sess' = sess \<and> (w' = w \<or> (\<exists>nm p x n. create_account r now nm p x w = Inr (n, w')))"
proof (cases "\<exists>nm p x n w1. form = Some (nm, p, Some x) \<and> create_account r now nm p x w = Inr (n, w1)")
  case True
  then obtain nm p x n w1 where f: "form = Some (nm, p, Some x)"
    and c: "create_account r now nm p x w = Inr (n, w1)" by blast
  from assms f c have "w' = w1 \<and> sess' = sess"
    by (auto simp: create_account_view_def Let_def split: if_splits)
  then show ?thesis using c by blast
next
  case False
  with assms have "w' = w \<and> sess' = sess"
    by (auto simp: create_account_view_def Let_def split: option.splits sum.splits if_splits prod.splits)
  then show ?thesis by simp
qed

lemma deposit_view_Inr:
  assumes "deposit_view now form sess w = Inr (w', sess', resp, fl)"
  shows "sess' = sess \<and> (w' = w \<or> (\<exists>n a x. accounts (bank w) n = Some a \<and>
    w' = save_data (store_account n (snd (deposit now x a)) w)))"
proof (cases "\<exists>n a x. sess = Some n \<and> form = Some (Some x) \<and> \<not> x \<le> 0 \<and> accounts (bank w) n = Some a")
  case True
  then obtain n a x where s: "sess = Some n" "form = Some (Some x)" "\<not> x \<le> 0" "accounts (bank w) n = Some a"
    by blast
  from assms s have "w' = save_data (store_account n (snd (deposit now x a)) w) \<and> sess' = sess"
    by (simp add: deposit_view_def login_guard_def lookup_account_def)
  then show ?thesis using s(4) by blast
next
  case False
  with assms have "w' = w \<and> sess' = sess"
    by (auto simp: deposit_view_def login_guard_def lookup_account_def split: option.splits if_splits)
  then show ?thesis by simp
qed

lemma withdraw_view_Inr:
  assumes "withdraw_view now form sess w = Inr (w', sess', resp, fl)"
  shows "sess' = sess \<and> (w' = w \<or> (\<exists>n a x p v a'. accounts (bank w) n = Some a \<and>
    withdraw now x p a = Inr (v, a') \<and> w' = save_data (store_account n a' w)))"
proof (cases "\<exists>n a x p v a'. sess = Some n \<and> form = Some (Some x, p) \<and> \<not> x \<le> 0 \<and>
    accounts (bank w) n = Some a \<and> withdraw now x p a = Inr (v, a')")
  case True
  then obtain n a x p v a' where s: "sess = Some n" "form = Some (Some x, p)" "\<not> x \<le> 0"
    "accounts (bank w) n = Some a" "withdraw now x p a = Inr (v, a')"
    by blast
  from assms s have "w' = save_data (store_account n a' w) \<and> sess' = sess"
    by (simp add: withdraw_view_def login_guard_def lookup_account_def)
  then show ?thesis using s(4,5) by blast
next
  case False
  with assms have "w' = w \<and> sess' = sess"
    by (auto simp: withdraw_view_def login_guard_def lookup_account_def split: option.splits if_splits sum.splits)
  then show ?thesis by simp
qed

lemma transfer_view_Inr:
  assumes "transfer_view now form sess w = Inr (w', sess', resp, fl)"
  shows "sess' = sess \<and> (w' = w \<or> (\<exists>n t x p. sess = Some n \<and> form = Some (t, Some x, p) \<and>
    transfer now n t x p w = Inr w'))"
proof (cases "\<exists>n t x p. sess = Some n \<and> form = Some (t, Some x, p) \<and> transfer now n t x p w = Inr w'")
  case False
  with assms have "w' = w \<and> sess' = sess"
    by (auto simp: transfer_view_def login_guard_def split: option.splits sum.splits)
  then show ?thesis by simp
qed (use assms in \<open>auto simp: transfer_view_def login_guard_def\<close>)

lemma bank_ledger_ok_lookup: "bank_ledger_ok b \<Longrightarrow> accounts b n = Some a \<Longrightarrow> ledger_ok a"
  by (auto simp: bank_ledger_ok_def intro: ranI)

lemma bank_ledger_ok_store:
  assumes "bank_ledger_ok (bank w)" "ledger_ok a'"
  shows "bank_ledger_ok (bank (save_data (store_account n a' w)))"
proof -
  have "\<forall>v\<in>ran ((accounts (bank w))(n \<mapsto> a')). ledger_ok v"
    using assms unfolding bank_ledger_ok_def by (rule ran_upd_subset)
  then show ?thesis by (simp add: bank_ledger_ok_def store_account_def save_data_def)
qed

subsection \<open>Route behaviour\<close>

text \<open>
  C22: the deposit route of a logged-in account refuses a non-positive amount with
  "Amount must be positive" and no change; otherwise it credits the account, appends a
  "Deposit" record whose snapshot is the new balance, saves the bank, flashes the new
  balance and redirects to the dashboard.
\<close>
theorem deposit_route:
  fixes x :: "'m::linordered_ab_group_add"
  assumes "accounts (bank w) n = Some a"
  shows "deposit_view now (Some (Some x)) (Some n) w =
    (if x \<le> 0 then Inr (w, Some n, Render Deposit_page, [(Error, Msg ''Amount must be positive'')])
     else Inr (save_data (store_account n (a\<lparr>balance := balance a + x, transactions := transactions a @
              [\<lparr>t_date = now, t_type = ''Deposit'', t_amount = x, t_balance = balance a + x\<rparr>]\<rparr>) w),
            Some n, Redirect Dashboard_page, [(Success, Deposit_successful (balance a + x))]))"
  using assms by (simp add: deposit_view_def login_guard_def lookup_account_def deposit_def add_transaction_def)

lemma deposit_route_witness:
  "deposit_view ''t'' (Some (Some (50::int))) (Some ''1111111111'') example_world =
     Inr (save_data (store_account ''1111111111'' (example_account\<lparr>balance := 150, transactions :=
       transactions example_account @ [\<lparr>t_date = ''t'', t_type = ''Deposit'', t_amount = 50, t_balance = 150\<rparr>]\<rparr>)
       example_world), Some ''1111111111'', Redirect Dashboard_page, [(Success, Deposit_successful 150)]) \<and>
   deposit_view ''t'' (Some (Some (0::int))) (Some ''1111111111'') example_world =
     Inr (example_world, Some ''1111111111'', Render Deposit_page, [(Error, Msg ''Amount must be positive'')])"
  using deposit_route [of example_world "''1111111111''" example_account "''t''" 50]
    deposit_route [of example_world "''1111111111''" example_account "''t''" 0]
  by simp

text \<open>
  C23: the withdraw route of a logged-in account checks, in this order, that the amount
  is positive, that the PIN is the account's, and that the amount does not exceed the
  balance, each failure flashing its message and changing nothing; otherwise it debits
  the account, appends a "Withdrawal" record with the negated amount and the new balance,
  saves the bank and redirects to the dashboard.
\<close>
theorem withdraw_route:
  fixes x :: "'m::linordered_ab_group_add"
  assumes "accounts (bank w) n = Some a"
  shows "withdraw_view now (Some (Some x, p)) (Some n) w =
    (if x \<le> 0 then Inr (w, Some n, Render Withdraw_page, [(Error, Msg ''Amount must be positive'')])
     else if p \<noteq> pin a then Inr (w, Some n, Render Withdraw_page, [(Error, Msg ''Invalid PIN'')])
     else if balance a < x then Inr (w, Some n, Render Withdraw_page, [(Error, Msg ''Insufficient funds'')])
     else Inr (save_data (store_account n (a\<lparr>balance := balance a - x, transactions := transactions a @
              [\<lparr>t_date = now, t_type = ''Withdrawal'', t_amount = - x, t_balance = balance a - x\<rparr>]\<rparr>) w),
            Some n, Redirect Dashboard_page, [(Success, Withdrawal_successful (balance a - x))]))"
  using assms by (simp add: withdraw_view_def login_guard_def lookup_account_def withdraw_def
      add_transaction_def Let_def)

lemma withdraw_route_witness:
  "withdraw_view ''t'' (Some (Some (500::int), ''1111'')) (Some ''1111111111'') example_world =
     Inr (example_world, Some ''1111111111'', Render Withdraw_page, [(Error, Msg ''Insufficient funds'')]) \<and>
   withdraw_view ''t'' (Some (Some (5::int), ''0000'')) (Some ''1111111111'') example_world =
     Inr (example_world, Some ''1111111111'', Render Withdraw_page, [(Error, Msg ''Invalid PIN'')])"
  using withdraw_route [of example_world "''1111111111''" example_account "''t''" 500 "''1111''"]
    withdraw_route [of example_world "''1111111111''" example_account "''t''" 5 "''0000''"]
  by simp

text \<open>
  C25: account creation does not check that the drawn number is free.  When the draw
  hits an existing account, the route reports success with that number, the old account
  (its balance and its transactions) is replaced by the new one, and the number of
  accounts does not grow.
\<close>
theorem create_account_collision:
  fixes x :: "'m::linordered_ab_group_add"
  assumes "accounts (bank w) (generate_account_number r) = Some old" "pin_format_ok p" "0 \<le> x"
  shows "\<exists>w'. create_account_view now r (Some (nm, p, Some x)) sess w =
      Inr (w', sess, Redirect Index,
        [(Success, Msg (''Account created successfully! Your account number is: '' @ generate_account_number r))]) \<and>
    accounts (bank w') (generate_account_number r) = Some (new_account r now nm p x) \<and>
    dom (accounts (bank w')) = dom (accounts (bank w))"
proof -
  let ?n = "generate_account_number r"
  let ?w' = "save_data (w\<lparr>bank := (bank w)\<lparr>accounts := (accounts (bank w))(?n \<mapsto> new_account r now nm p x)\<rparr>\<rparr>)"
  have "create_account_view now r (Some (nm, p, Some x)) sess w =
      Inr (?w', sess, Redirect Index, [(Success, Msg (''Account created successfully! Your account number is: '' @ ?n))])"
    using create_account_view_success [of p x now r nm sess w] assms(2,3) by simp
  moreover have "dom (accounts (bank ?w')) = dom (accounts (bank w))"
    using assms(1) by auto
  ultimately show ?thesis by auto
qed

lemma create_account_collision_witness:
  "\<exists>w'. create_account_view ''t'' 1111111111 (Some (''Mallory'', ''9999'', Some (0::int))) None example_world =
      Inr (w', None, Redirect Index,
        [(Success, Msg (''Account created successfully! Your account number is: '' @ ''1111111111''))]) \<and>
    balance (the (accounts (bank w') ''1111111111'')) = 0 \<and>
    dom (accounts (bank w')) = {''1111111111'', ''2222222222''}"
proof -
  have g: "generate_account_number 1111111111 = ''1111111111''"
    by (simp add: generate_account_number_def nat_to_str_step digit_char_def)
  have "accounts (bank example_world) (generate_account_number 1111111111) = Some example_account"
    "pin_format_ok ''9999''" "0 \<le> (0::int)"
    by (simp_all add: g pin_format_ok_def isdigit_def is_digit_char_def)
  from create_account_collision [OF this, of "''t''" "''Mallory''" None]
  obtain w' where "create_account_view ''t'' 1111111111 (Some (''Mallory'', ''9999'', Some (0::int))) None
      example_world = Inr (w', None, Redirect Index,
        [(Success, Msg (''Account created successfully! Your account number is: '' @ ''1111111111''))])"
    "accounts (bank w') ''1111111111'' = Some (new_account 1111111111 ''t'' ''Mallory'' ''9999'' 0)"
    "dom (accounts (bank w')) = dom (accounts (bank example_world))"
    unfolding g by blast
  moreover have "dom (accounts (bank example_world)) = {''1111111111'', ''2222222222''}"
    by auto
  ultimately show ?thesis by auto
qed

text \<open>
  C26: unlike the deposit and withdraw routes, the transfer route has no
  \<open>amount <= 0\<close> check.  A logged-in user who sends a negative amount to another
  existing account is told the transfer completed, and the destination's balance
  decreases: the route lets any account holder take money from any other account.
\<close>
theorem transfer_route_negative_amount:
  fixes x :: "'m::linordered_ab_group_add"
  assumes "n \<noteq> t" "accounts (bank w) n = Some a" "accounts (bank w) t = Some c" "pin a = p"
    "x < 0" "x \<le> balance a"
  shows "\<exists>w'. transfer_view now (Some (t, Some x, p)) (Some n) w =
      Inr (w', Some n, Redirect Dashboard_page, [(Success, Msg ''Transfer completed successfully!'')]) \<and>
    balance (the (accounts (bank w') t)) = balance c + x \<and> balance c + x < balance c"
proof -
  have "\<not> balance a < x" using assms(6) by (simp add: not_less)
  note tr = transfer_distinct [OF assms(1-4) this, of now]
  show ?thesis
    by (rule exI, rule conjI, simp add: transfer_view_def login_guard_def tr)
       (use assms(1,5) in simp)
qed

lemma transfer_route_negative_amount_witness:
  "\<exists>w'. transfer_view ''t'' (Some (''2222222222'', Some (-30::int), ''1111''))
      (Some ''1111111111'') example_world =
      Inr (w', Some ''1111111111'', Redirect Dashboard_page, [(Success, Msg ''Transfer completed successfully!'')]) \<and>
    balance (the (accounts (bank w') ''2222222222'')) = -30"
proof -
  have "''1111111111'' \<noteq> ''2222222222''"
    "accounts (bank example_world) ''1111111111'' = Some example_account"
    "accounts (bank example_world) ''2222222222'' =
       Some (new_account 2222222222 ''2024-01-01 09:30:00'' ''Bob'' ''2222'' 0)"
    "pin example_account = ''1111''" "(-30::int) < 0" "(-30::int) \<le> balance example_account"
    by simp_all
  from transfer_route_negative_amount [OF this, of "''t''"] show ?thesis by simp
qed

end
