(* ===== verification/Server.thy ===== *)
theory Server
  imports Routes
begin

text \<open>
  The running server (src/src/1.0/main.py lines 8--9, 103--104, 106--235).  A request is
  one of the routes with its form; \<open>dispatch\<close> is Flask's routing table.  The server
  state extends \<open>world\<close> with \<open>issued\<close>, the account numbers that some session
  cookie signed with the current \<open>app.secret_key\<close> carries: a browser can send any
  cookie it was given, and no other (the signature), so a request's session entry is
  \<open>None\<close> or a member of \<open>issued\<close>.  \<open>boot\<close> is process start: a fresh secret key
  (no cookie is valid) and \<open>Bank.load_data()\<close>.  A step is one request handled to its
  end, one request that ends in HTTP 500 (no state change), or a restart of the process.
  Requests are handled one at a time, as in the development server the code runs.
  The random draw of \<open>create_account\<close> ranges over \<open>account_number_draw\<close>.

  The invariant \<open>server_inv\<close> (the file holds the served bank, the bank is well formed,
  every valid session names an account) is proved for every reachable state by rule
  induction, from one lemma per handler stating \<open>state_ok\<close> and \<open>sess_ok\<close>.  The
  properties of the running server follow: authentication, the login guard, the
  errors that end in HTTP 500, the ledger invariant per step, and a possibility
  property (create an account, then log in).
\<close>

datatype 'm request =
    Index_req
  | Create_account_req "(string \<times> string \<times> 'm option) option"
  | Login_req "(acct_no \<times> string) option"
  | Logout_req
  | Dashboard_req
  | Deposit_req "'m option option"
  | Withdraw_req "('m option \<times> string) option"
  | Transfer_req "(acct_no \<times> 'm option \<times> string) option"
  | Statement_req

fun dispatch ::
  "timestamp \<Rightarrow> nat \<Rightarrow> 'm::{ord, zero, plus, minus, uminus} request \<Rightarrow> acct_no option \<Rightarrow>
   ('m, 'z) world_scheme \<Rightarrow> failure + ('m, 'z) handled" where
  "dispatch now r Index_req = index"
| "dispatch now r (Create_account_req form) = create_account_view now r form"
| "dispatch now r (Login_req form) = login form"
| "dispatch now r Logout_req = logout"
| "dispatch now r Dashboard_req = dashboard"
| "dispatch now r (Deposit_req form) = deposit_view now form"
| "dispatch now r (Withdraw_req form) = withdraw_view now form"
| "dispatch now r (Transfer_req form) = transfer_view now form"
| "dispatch now r Statement_req = statement"

record 'm server = "'m world" +
  issued :: "acct_no set"

definition boot :: "'m bank_file \<Rightarrow> 'm server" where
  "boot d = \<lparr>bank = load_data d, bank_data = d, issued = {}\<rparr>"

datatype 'm event = Request timestamp nat "acct_no option" "'m request" | Restart

inductive server_step ::
  "'m::{ord, zero, plus, minus, uminus} server \<Rightarrow> 'm event \<Rightarrow> 'm server \<Rightarrow> bool" where
  handled: "set_option sess \<subseteq> issued s \<Longrightarrow> account_number_draw r \<Longrightarrow>
    dispatch now r req sess s = Inr (s', sess', resp, fl) \<Longrightarrow>
    server_step s (Request now r sess req) (s'\<lparr>issued := issued s' \<union> set_option sess'\<rparr>)"
| internal_error: "set_option sess \<subseteq> issued s \<Longrightarrow> account_number_draw r \<Longrightarrow>
    dispatch now r req sess s = Inl err \<Longrightarrow>
    server_step s (Request now r sess req) s"
| restart: "server_step s Restart (boot (bank_data s))"

inductive reachable :: "'m::{ord, zero, plus, minus, uminus} server \<Rightarrow> bool" where
  fresh: "reachable (boot No_file)"
| unreadable: "reachable (boot Unreadable)"
| step: "reachable s \<Longrightarrow> server_step s e s' \<Longrightarrow> reachable s'"

text \<open>Which requests the login guard protects, and which carry an unparsable number.\<close>

fun protected :: "'m request \<Rightarrow> bool" where
  "protected Dashboard_req = True"
| "protected (Deposit_req _) = True"
| "protected (Withdraw_req _) = True"
| "protected (Transfer_req _) = True"
| "protected Statement_req = True"
| "protected _ = False"

fun malformed :: "'m request \<Rightarrow> bool" where
  "malformed (Create_account_req (Some (_, _, None))) = True"
| "malformed (Deposit_req (Some None)) = True"
| "malformed (Withdraw_req (Some (None, _))) = True"
| "malformed (Transfer_req (Some (_, None, _))) = True"
| "malformed _ = False"

fun self_transfer :: "'m event \<Rightarrow> bool" where
  "self_transfer (Request now r (Some n) (Transfer_req (Some (t, _, _)))) = (t = n)"
| "self_transfer _ = False"

text \<open>
  The well-formedness of a bank that every reachable state keeps: finitely many
  accounts, each stored under its own ten-digit number and with a four-digit PIN.
\<close>

definition bank_wf :: "'m bank \<Rightarrow> bool" where
  "bank_wf b \<longleftrightarrow> finite (dom (accounts b)) \<and>
     (\<forall>k\<in>dom (accounts b). account_number (the (accounts b k)) = k \<and>
        length k = 10 \<and> isdigit k \<and> pin_format_ok (pin (the (accounts b k))))"

definition server_inv :: "'m server \<Rightarrow> bool" where
  "server_inv s \<longleftrightarrow> persisted s \<and> bank_wf (bank s) \<and> issued s \<subseteq> dom (accounts (bank s))"
text \<open>
  \<open>state_ok w w'\<close>: a handler either left the state as it was, or replaced the bank by a
  well-formed one with at least the old accounts and saved it (the rest of the state, the
  issued sessions included, unchanged).  \<open>sess_ok\<close>: the new session entry is the old one,
  none, or an account of the bank.
\<close>
definition state_ok :: "('m, 'z) world_scheme \<Rightarrow> ('m, 'z) world_scheme \<Rightarrow> bool" where
  "state_ok w w' \<longleftrightarrow> w' = w \<or>
     (w' = save_data (w\<lparr>bank := bank w'\<rparr>) \<and> bank_wf (bank w') \<and>
      dom (accounts (bank w)) \<subseteq> dom (accounts (bank w')))"

definition sess_ok :: "('m, 'z) world_scheme \<Rightarrow> acct_no option \<Rightarrow> acct_no option \<Rightarrow> bool" where
  "sess_ok w sess sess' \<longleftrightarrow> sess' = sess \<or> sess' = None \<or> (\<exists>n. sess' = Some n \<and> n \<in> dom (accounts (bank w)))"

text \<open>
  A server with one account, reached from a fresh start by one account creation.
\<close>
definition example_server :: "int server" where
  "example_server =
     \<lparr>bank = \<lparr>accounts = [''1111111111'' \<mapsto> example_account]\<rparr>,
      bank_data = Pickle \<lparr>accounts = [''1111111111'' \<mapsto> example_account]\<rparr>, issued = {}\<rparr>"

inductive_cases request_stepE: "server_step s (Request now r sess req) s'"

subsection \<open>Well-formed banks\<close>

lemma bank_wf_upd:
  assumes "bank_wf b" "account_number a = k" "length k = 10" "isdigit k" "pin_format_ok (pin a)"
  shows "bank_wf (b\<lparr>accounts := (accounts b)(k \<mapsto> a)\<rparr>)"
  using assms by (auto simp: bank_wf_def)

lemma bank_wf_replace:
  assumes "bank_wf b" "accounts b k = Some a" "account_number a' = account_number a" "pin a' = pin a"
  shows "bank_wf (b\<lparr>accounts := (accounts b)(k \<mapsto> a')\<rparr>)"
proof -
  have k: "k \<in> dom (accounts b)" using assms(2) by blast
  have "account_number (the (accounts b k)) = k \<and> length k = 10 \<and> isdigit k \<and>
      pin_format_ok (pin (the (accounts b k)))"
    using assms(1) k unfolding bank_wf_def by blast
  then show ?thesis using assms bank_wf_upd [of b a' k] by simp
qed

lemma state_ok_refl [simp]: "state_ok w w"
  by (simp add: state_ok_def)

lemma state_ok_save:
  "bank_wf b' \<Longrightarrow> dom (accounts (bank w)) \<subseteq> dom (accounts b') \<Longrightarrow> state_ok w (save_data (w\<lparr>bank := b'\<rparr>))"
  by (simp add: state_ok_def save_data_def)

lemma state_ok_store:
  "bank_wf (bank w) \<Longrightarrow> accounts (bank w) k = Some a \<Longrightarrow> account_number a' = account_number a \<Longrightarrow>
   pin a' = pin a \<Longrightarrow> state_ok w (save_data (store_account k a' w))"
  unfolding store_account_def
  by (rule state_ok_save) (auto intro: bank_wf_replace)

lemma state_ok_issued: "state_ok (s::'m server) s' \<Longrightarrow> issued s' = issued s"
proof (cases "s' = s")
  case False
  assume "state_ok s s'"
  with False have "s' = save_data (s\<lparr>bank := bank s'\<rparr>)" by (simp add: state_ok_def)
  then have "issued s' = issued (save_data (s\<lparr>bank := bank s'\<rparr>))" by (rule arg_cong)
  then show ?thesis by (simp add: save_data_def)
qed simp

lemma readonly_handlers:
  "index sess w = Inr (w', sess', resp, fl) \<Longrightarrow> w' = w \<and> sess' = sess"
  "logout sess w = Inr (w', sess', resp, fl) \<Longrightarrow> w' = w \<and> sess' = None"
  "login form sess w = Inr (w', sess', resp, fl) \<Longrightarrow> w' = w \<and> sess_ok w sess sess'"
  "dashboard sess w = Inr (w', sess', resp, fl) \<Longrightarrow> w' = w \<and> sess' = sess"
  "statement sess w = Inr (w', sess', resp, fl) \<Longrightarrow> w' = w \<and> sess' = sess"
  by (auto simp: index_def logout_def login_def dashboard_def statement_def login_guard_def
      lookup_account_def sess_ok_def split: option.splits if_splits sum.splits)

lemma create_account_view_ok:
  assumes wf: "bank_wf (bank w)" and d: "account_number_draw r"
    and h: "create_account_view now r form sess w = Inr (w', sess', resp, fl)"
  shows "state_ok w w' \<and> sess' = sess"
proof -
  have s: "sess' = sess" and c: "w' = w \<or> (\<exists>nm p x n. create_account r now nm p x w = Inr (n, w'))"
    using create_account_view_Inr [OF h] by simp_all
  have "state_ok w w'"
  proof (cases "w' = w")
    case False
    with c obtain nm p x n where "create_account r now nm p x w = Inr (n, w')" by blast
    then have p: "pin_format_ok p" and w': "w' = save_data (w\<lparr>bank := (bank w)\<lparr>accounts :=
        (accounts (bank w))(generate_account_number r \<mapsto> new_account r now nm p x)\<rparr>\<rparr>)"
      by (simp_all add: create_account_Inr_cases)
    have "bank_wf ((bank w)\<lparr>accounts :=
        (accounts (bank w))(generate_account_number r \<mapsto> new_account r now nm p x)\<rparr>)"
      using bank_wf_upd [OF wf, of "new_account r now nm p x" "generate_account_number r"]
        generate_account_number_wf [OF d] p by simp
    then show ?thesis unfolding w' by (auto intro: state_ok_save)
  qed simp
  with s show ?thesis by simp
qed

lemma deposit_view_ok:
  assumes wf: "bank_wf (bank w)" and h: "deposit_view now form sess w = Inr (w', sess', resp, fl)"
  shows "state_ok w w' \<and> sess' = sess"
proof -
  have s: "sess' = sess" and c: "w' = w \<or> (\<exists>n a x. accounts (bank w) n = Some a \<and>
      w' = save_data (store_account n (snd (deposit now x a)) w))"
    using deposit_view_Inr [OF h] by simp_all
  have "state_ok w w'"
  proof (cases "w' = w")
    case False
    with c obtain n a x where "accounts (bank w) n = Some a"
      "w' = save_data (store_account n (snd (deposit now x a)) w)" by blast
    then show ?thesis using state_ok_store [OF wf] by simp
  qed simp
  with s show ?thesis by simp
qed

lemma withdraw_view_ok:
  assumes wf: "bank_wf (bank w)" and h: "withdraw_view now form sess w = Inr (w', sess', resp, fl)"
  shows "state_ok w w' \<and> sess' = sess"
proof -
  have s: "sess' = sess" and c: "w' = w \<or> (\<exists>n a x p v a'. accounts (bank w) n = Some a \<and>
      withdraw now x p a = Inr (v, a') \<and> w' = save_data (store_account n a' w))"
    using withdraw_view_Inr [OF h] by simp_all
  have "state_ok w w'"
  proof (cases "w' = w")
    case False
    with c obtain n a x p v a' where a: "accounts (bank w) n = Some a"
      and wd: "withdraw now x p a = Inr (v, a')" and w': "w' = save_data (store_account n a' w)" by blast
    have "account_number a' = account_number a" "pin a' = pin a"
      using wd by (auto simp: withdraw_Inr_iff)
    then show ?thesis unfolding w' by (rule state_ok_store [OF wf a])
  qed simp
  with s show ?thesis by simp
qed

lemma bank_eta: "b = (b'::'m bank)\<lparr>accounts := accounts b\<rparr>"
  by simp

lemma transfer_state_ok:
  assumes wf: "bank_wf (bank w)" and h: "transfer now f t amt p w = Inr w'"
  shows "state_ok w w'"
proof -
  obtain a c where ac: "accounts (bank w) f = Some a" "accounts (bank w) t = Some c"
    "pin a = p" "\<not> balance a < amt" "bank_data w' = Pickle (bank w')"
    and ne: "f \<noteq> t \<Longrightarrow> accounts (bank w') = (accounts (bank w))
        (f \<mapsto> add_transaction now (''Transfer to '' @ t) (- amt) (a\<lparr>balance := balance a - amt\<rparr>),
         t \<mapsto> add_transaction now (''Transfer from '' @ f) amt (c\<lparr>balance := balance c + amt\<rparr>))"
    and eq: "f = t \<Longrightarrow> accounts (bank w') = (accounts (bank w))
        (f \<mapsto> add_transaction now (''Transfer from '' @ f) amt
               (add_transaction now (''Transfer to '' @ f) (- amt)
                 (a\<lparr>balance := balance a - amt + amt\<rparr>)))"
    by (rule transfer_Inr_accounts [OF h]) (rule that)
  have b': "bank w' = (bank w)\<lparr>accounts := accounts (bank w')\<rparr>"
    by (rule bank_eta)
  have "bank_wf (bank w')"
  proof (cases "f = t")
    case True
    show ?thesis
      by (subst b', unfold eq [OF True], rule bank_wf_replace [OF wf ac(1)]) simp_all
  next
    case False
    let ?b1 = "(bank w)\<lparr>accounts := (accounts (bank w))
      (f \<mapsto> add_transaction now (''Transfer to '' @ t) (- amt) (a\<lparr>balance := balance a - amt\<rparr>))\<rparr>"
    have wf1: "bank_wf ?b1"
      by (rule bank_wf_replace [OF wf ac(1)]) simp_all
    have c1: "accounts ?b1 t = Some c" using ac(2) False by simp
    have "bank_wf (?b1\<lparr>accounts := (accounts ?b1)
        (t \<mapsto> add_transaction now (''Transfer from '' @ f) amt (c\<lparr>balance := balance c + amt\<rparr>))\<rparr>)"
      by (rule bank_wf_replace [OF wf1 c1]) simp_all
    then show ?thesis
      by (subst b', unfold ne [OF False]) simp
  qed
  moreover have "dom (accounts (bank w)) \<subseteq> dom (accounts (bank w'))"
    using ac(1,2) ne eq by (cases "f = t") auto
  ultimately show ?thesis
    using transfer_Inr_shape [OF h] unfolding state_ok_def by blast
qed

lemma transfer_view_ok:
  assumes wf: "bank_wf (bank w)"
    and h: "transfer_view now form sess w = Inr (w', sess', resp, fl)"
  shows "state_ok w w' \<and> sess' = sess"
  using h transfer_state_ok [OF wf]
  by (auto simp: transfer_view_def login_guard_def split: option.splits sum.splits)

lemma dispatch_ok:
  assumes wf: "bank_wf (bank w)" and d: "account_number_draw r"
    and h: "dispatch now r req sess w = Inr (w', sess', resp, fl)"
  shows "state_ok w w' \<and> sess_ok w sess sess'"
proof (cases req)
  case (Create_account_req form)
  then show ?thesis using create_account_view_ok [OF wf d] h by (simp add: sess_ok_def)
next
  case (Deposit_req form)
  then show ?thesis using deposit_view_ok [OF wf] h by (simp add: sess_ok_def)
next
  case (Withdraw_req form)
  then show ?thesis using withdraw_view_ok [OF wf] h by (simp add: sess_ok_def)
next
  case (Transfer_req form)
  then show ?thesis using transfer_view_ok [OF wf] h by (simp add: sess_ok_def)
next
  case Index_req
  with h have "index sess w = Inr (w', sess', resp, fl)" by simp
  then have "w' = w \<and> sess' = sess" by (rule readonly_handlers(1))
  then show ?thesis by (simp add: sess_ok_def)
next
  case Logout_req
  with h have "logout sess w = Inr (w', sess', resp, fl)" by simp
  then have "w' = w \<and> sess' = None" by (rule readonly_handlers(2))
  then show ?thesis by (simp add: sess_ok_def)
next
  case (Login_req form)
  with h have "login form sess w = Inr (w', sess', resp, fl)" by simp
  then have "w' = w \<and> sess_ok w sess sess'" by (rule readonly_handlers(3))
  then show ?thesis by (simp add: sess_ok_def)
next
  case Dashboard_req
  with h have "dashboard sess w = Inr (w', sess', resp, fl)" by simp
  then have "w' = w \<and> sess' = sess" by (rule readonly_handlers(4))
  then show ?thesis by (simp add: sess_ok_def)
next
  case Statement_req
  with h have "statement sess w = Inr (w', sess', resp, fl)" by simp
  then have "w' = w \<and> sess' = sess" by (rule readonly_handlers(5))
  then show ?thesis by (simp add: sess_ok_def)
qed

lemma server_inv_boot: "d = No_file \<or> d = Unreadable \<Longrightarrow> server_inv (boot d)"
  by (auto simp: server_inv_def boot_def persisted_def bank_wf_def)

lemma server_inv_restart: "server_inv s \<Longrightarrow> server_inv (boot (bank_data s))"
  by (simp add: server_inv_def boot_def persisted_def)

lemma server_inv_handled:
  assumes inv: "server_inv s" and ss: "set_option sess \<subseteq> issued s" and d: "account_number_draw r"
    and h: "dispatch now r req sess s = Inr (s', sess', resp, fl)"
  shows "server_inv (s'\<lparr>issued := issued s' \<union> set_option sess'\<rparr>)"
proof -
  have wf: "bank_wf (bank s)" and p: "persisted s" and iss: "issued s \<subseteq> dom (accounts (bank s))"
    using inv by (simp_all add: server_inv_def)
  have ok: "state_ok s s'" and sok: "sess_ok s sess sess'"
    using dispatch_ok [OF wf d h] by simp_all
  have s': "persisted s' \<and> bank_wf (bank s') \<and> issued s' = issued s \<and>
      dom (accounts (bank s)) \<subseteq> dom (accounts (bank s'))"
  proof (cases "s' = s")
    case True
    then show ?thesis using p wf by simp
  next
    case False
    with ok have "s' = save_data (s\<lparr>bank := bank s'\<rparr>)" "bank_wf (bank s')"
        "dom (accounts (bank s)) \<subseteq> dom (accounts (bank s'))"
      by (simp_all add: state_ok_def)
    moreover from this(1) have "issued s' = issued (save_data (s\<lparr>bank := bank s'\<rparr>))"
      by (rule arg_cong)
    then have "issued s' = issued s" by (simp add: save_data_def)
    moreover have "persisted s'"
      by (subst \<open>s' = save_data (s\<lparr>bank := bank s'\<rparr>)\<close>) (rule persisted_save_data)
    ultimately show ?thesis by simp
  qed
  have "set_option sess' \<subseteq> dom (accounts (bank s))"
    using sok ss iss by (auto simp: sess_ok_def)
  then have "issued s' \<union> set_option sess' \<subseteq> dom (accounts (bank s'))"
    using s' iss by blast
  then show ?thesis
    using s' by (simp add: server_inv_def persisted_def)
qed

lemma server_inv_step: "server_step s e s' \<Longrightarrow> server_inv s \<Longrightarrow> server_inv s'"
proof (induction rule: server_step.induct)
  case (handled sess s r now req s' sess' resp fl)
  show ?case by (rule server_inv_handled [OF handled.prems handled.hyps])
next
  case (internal_error sess s r now req err)
  then show ?case by simp
next
  case (restart s)
  then show ?case by (rule server_inv_restart)
qed

lemma reachable_server_inv: "reachable s \<Longrightarrow> server_inv s"
proof (induction rule: reachable.induct)
  case fresh
  then show ?case by (simp add: server_inv_boot)
next
  case unreadable
  then show ?case by (simp add: server_inv_boot)
next
  case (step s e s')
  then show ?case by (blast intro: server_inv_step)
qed

subsection \<open>Handlers seen through the routing table\<close>

lemma dispatch_Inl:
  assumes "set_option sess \<subseteq> dom (accounts (bank w))"
  shows "dispatch now r req sess w = Inl e \<longleftrightarrow>
    e = Value_error \<and> malformed req \<and> (protected req \<longrightarrow> sess \<noteq> None)"
  using assms
  by (cases req rule: malformed.cases)
     (auto simp: create_account_view_def deposit_view_def withdraw_view_def transfer_view_def
      index_def login_def logout_def dashboard_def statement_def login_guard_def lookup_account_def Let_def
      split: option.splits sum.splits if_splits prod.splits)

lemma dispatch_new_session:
  assumes "dispatch now r req sess w = Inr (w', Some n, resp, fl)" "sess \<noteq> Some n"
  shows "n \<in> dom (accounts (bank w)) \<and> req = Login_req (Some (n, pin (the (accounts (bank w) n))))"
  using assms
  by (cases req) (auto dest: views_keep_session simp: index_def login_def logout_def dashboard_def statement_def login_guard_def
      lookup_account_def split: option.splits sum.splits if_splits)

lemma dispatch_keeps_ledger:
  fixes w :: "('m::linordered_ab_group_add, 'z) world_scheme"
  assumes l: "bank_ledger_ok (bank w)" and h: "dispatch now r req sess w = Inr (w', sess', resp, fl)"
    and ns: "\<not> self_transfer (Request now r sess req)"
  shows "bank_ledger_ok (bank w')"
proof (cases "w' = w")
  case False
  show ?thesis
  proof (cases req)
    case (Create_account_req form)
    with h have "create_account_view now r form sess w = Inr (w', sess', resp, fl)" by simp
    from create_account_view_Inr [OF this] False obtain nm p x n
      where "create_account r now nm p x w = Inr (n, w')" by blast
    then have "w' = save_data (w\<lparr>bank := (bank w)\<lparr>accounts :=
        (accounts (bank w))(generate_account_number r \<mapsto> new_account r now nm p x)\<rparr>\<rparr>)"
      by (simp add: create_account_Inr_cases)
    moreover have "\<forall>v\<in>ran ((accounts (bank w))(generate_account_number r \<mapsto> new_account r now nm p x)). ledger_ok v"
      using l unfolding bank_ledger_ok_def by (rule ran_upd_subset) (rule new_account_ledger_ok)
    ultimately show ?thesis by (simp add: bank_ledger_ok_def save_data_def)
  next
    case (Deposit_req form)
    with h have "deposit_view now form sess w = Inr (w', sess', resp, fl)" by simp
    from deposit_view_Inr [OF this] False obtain n a x where a: "accounts (bank w) n = Some a"
        and w': "w' = save_data (store_account n (snd (deposit now x a)) w)" by blast
    show ?thesis unfolding w'
      by (rule bank_ledger_ok_store [OF l deposit_ledger_ok [OF bank_ledger_ok_lookup [OF l a]]])
  next
    case (Withdraw_req form)
    with h have "withdraw_view now form sess w = Inr (w', sess', resp, fl)" by simp
    from withdraw_view_Inr [OF this] False obtain n a x p v a' where a: "accounts (bank w) n = Some a"
        and wd: "withdraw now x p a = Inr (v, a')" and w': "w' = save_data (store_account n a' w)" by blast
    show ?thesis unfolding w'
      by (rule bank_ledger_ok_store [OF l withdraw_ledger_ok [OF bank_ledger_ok_lookup [OF l a] wd]])
  next
    case (Transfer_req form)
    with h have "transfer_view now form sess w = Inr (w', sess', resp, fl)" by simp
    from transfer_view_Inr [OF this] False obtain n t x p where "sess = Some n" "form = Some (t, Some x, p)"
        "transfer now n t x p w = Inr w'" by blast
    moreover from this ns Transfer_req have "n \<noteq> t" by auto
    ultimately show ?thesis
      using l transfer_keeps_ledger by blast
  qed (use h False in \<open>auto dest: readonly_handlers\<close>)
qed (use l in simp)

subsection \<open>The example server\<close>

lemma example_create:
  "dispatch ''2024-01-01 09:00:00'' 1111111111
     (Create_account_req (Some (''Alice'', ''1111'', Some (100::int)))) None (boot No_file) =
   Inr (example_server, None, Redirect Index,
        [(Success, Msg (''Account created successfully! Your account number is: '' @ ''1111111111''))])"
proof -
  have g: "generate_account_number 1111111111 = ''1111111111''"
    by (simp add: generate_account_number_def nat_to_str_step digit_char_def)
  have "create_account 1111111111 ''2024-01-01 09:00:00'' ''Alice'' ''1111'' (100::int) (boot No_file) =
    Inr (''1111111111'', example_server)"
    by (simp add: create_account_Inr pin_format_ok_def isdigit_def is_digit_char_def g
        example_server_def example_account_def boot_def save_data_def)
  then show ?thesis
    by (simp add: create_account_view_def startswith_def)
qed

lemma example_server_reachable: "reachable example_server"
proof -
  have d: "account_number_draw 1111111111" by (simp add: account_number_draw_def randint_def)
  have "server_step (boot No_file) (Request ''2024-01-01 09:00:00'' 1111111111 None
      (Create_account_req (Some (''Alice'', ''1111'', Some (100::int)))))
      (example_server\<lparr>issued := issued example_server \<union> set_option None\<rparr>)"
    by (rule server_step.handled [OF _ d example_create]) simp
  then show ?thesis using reachable.fresh reachable.step by fastforce
qed

lemma example_login_step:
  "server_step example_server (Request ''t'' 1111111111 None (Login_req (Some (''1111111111'', ''1111''))))
     (example_server\<lparr>issued := {''1111111111''}\<rparr>)"
proof -
  have d: "account_number_draw 1111111111" by (simp add: account_number_draw_def randint_def)
  have "dispatch ''t'' 1111111111 (Login_req (Some (''1111111111'', ''1111''))) None example_server =
    Inr (example_server, Some ''1111111111'', Redirect Dashboard_page, [(Success, Msg ''Login successful!'')])"
    by (simp add: login_def example_server_def)
  from server_step.handled [OF _ d this] show ?thesis by (simp add: example_server_def)
qed

lemma example_session_reachable: "reachable (example_server\<lparr>issued := {''1111111111''}\<rparr>)"
  by (rule reachable.step [OF example_server_reachable example_login_step])

lemma example_server_ledger_ok: "bank_ledger_ok (bank example_server)"
  by (simp add: bank_ledger_ok_def example_server_def ledger_ok_def ledger_from_snoc replay_def)

subsection \<open>Properties of the running server\<close>

text \<open>
  C14: the session cookie identifies an account only after a login with that account's
  PIN: when a request makes an account number valid as a session that was not before,
  the request is the login form with that number and the account's PIN.
\<close>
theorem session_requires_pin:
  assumes "reachable s" "server_step s (Request now r sess req) s'" "n \<in> issued s'" "n \<notin> issued s"
  shows "n \<in> dom (accounts (bank s)) \<and> req = Login_req (Some (n, pin (the (accounts (bank s) n))))"
proof (rule request_stepE [OF assms(2)])
  fix s1 sess' resp fl
  assume s': "s' = s1\<lparr>issued := issued s1 \<union> set_option sess'\<rparr>" and ss: "set_option sess \<subseteq> issued s"
    and d: "account_number_draw r" and h: "dispatch now r req sess s = Inr (s1, sess', resp, fl)"
  have wf: "bank_wf (bank s)" using reachable_server_inv [OF assms(1)] by (simp add: server_inv_def)
  have "issued s1 = issued s"
    using dispatch_ok [OF wf d h] by (simp add: state_ok_issued)
  then have "sess' = Some n" "sess \<noteq> Some n"
    using assms(3,4) s' ss by auto
  then show ?thesis using dispatch_new_session h by blast
next
  assume "s' = s"
  then show ?thesis using assms(3,4) by simp
qed

lemma session_requires_pin_witness:
  "''1111111111'' \<in> dom (accounts (bank example_server)) \<and>
   pin (the (accounts (bank example_server) ''1111111111'')) = ''1111''"
  using session_requires_pin [OF example_server_reachable example_login_step, of "''1111111111''"]
  by (simp add: example_server_def)

text \<open>
  C15: every protected route (dashboard, deposit, withdraw, transfer, statement) sent
  without a session changes nothing and redirects to the login page with the flash
  "Please login first".
\<close>
theorem login_required:
  "protected req \<Longrightarrow>
   dispatch now r req None w = Inr (w, None, Redirect Login_page, [(Error, Msg ''Please login first'')])"
  by (cases req) (simp_all add: dashboard_def deposit_view_def withdraw_view_def transfer_view_def
      statement_def login_guard_def)

lemma login_required_witness:
  "protected (Statement_req :: int request) \<and>
   dispatch ''t'' 0 Statement_req None example_server =
     Inr (example_server, None, Redirect Login_page, [(Error, Msg ''Please login first'')])"
  using login_required [of "Statement_req :: int request" "''t''" 0 example_server] by simp

text \<open>
  C16: in every reachable state the pickle file holds the bank the process serves:
  every state-changing request saved it.
\<close>
theorem reachable_persisted:
  "reachable s \<Longrightarrow> load_data (bank_data s) = bank s"
  using reachable_server_inv [of s] by (simp add: server_inv_def persisted_def)

lemma reachable_persisted_witness:
  "load_data (bank_data example_server) = bank example_server"
  by (rule reachable_persisted [OF example_server_reachable])

text \<open>
  C17: in every reachable state every account number that a valid session cookie carries
  is an account of the bank, so \<open>bank.accounts[session['account_number']]\<close> never
  raises.
\<close>
theorem reachable_sessions_valid:
  "reachable s \<Longrightarrow> issued s \<subseteq> dom (accounts (bank s))"
  using reachable_server_inv [of s] by (simp add: server_inv_def)

lemma reachable_sessions_valid_witness:
  "issued (example_server\<lparr>issued := {''1111111111''}\<rparr>) \<subseteq>
     dom (accounts (bank (example_server\<lparr>issued := {''1111111111''}\<rparr>)))"
  by (rule reachable_sessions_valid [OF example_session_reachable])

text \<open>
  C18: in every reachable state every account is stored under its own number, which is
  a ten-digit decimal string, and has a four-digit PIN.
\<close>
theorem reachable_bank_wf:
  "reachable s \<Longrightarrow> k \<in> dom (accounts (bank s)) \<Longrightarrow>
   account_number (the (accounts (bank s) k)) = k \<and> length k = 10 \<and> isdigit k \<and>
   pin_format_ok (pin (the (accounts (bank s) k)))"
  using reachable_server_inv [of s] by (simp add: server_inv_def bank_wf_def)

lemma reachable_bank_wf_witness:
  "account_number (the (accounts (bank example_server) ''1111111111'')) = ''1111111111'' \<and>
   pin_format_ok (pin (the (accounts (bank example_server) ''1111111111'')))"
  using reachable_bank_wf [OF example_server_reachable, of "''1111111111''"]
  by (simp add: example_server_def)

text \<open>
  C19: from a reachable state, with a valid session cookie, a request ends in HTTP 500
  exactly when a number field does not parse (\<open>float\<close> raises \<open>ValueError\<close>) on a route
  that gets that far (a protected route needs a session); no request raises
  \<open>KeyError\<close>.
\<close>
theorem internal_error_iff_malformed:
  assumes "reachable s" "set_option sess \<subseteq> issued s"
  shows "dispatch now r req sess s = Inl e \<longleftrightarrow>
    e = Value_error \<and> malformed req \<and> (protected req \<longrightarrow> sess \<noteq> None)"
proof -
  have "issued s \<subseteq> dom (accounts (bank s))"
    using reachable_server_inv [OF assms(1)] by (simp add: server_inv_def)
  then show ?thesis using assms(2) by (intro dispatch_Inl) blast
qed

lemma internal_error_iff_malformed_witness:
  "dispatch ''t'' 0 (Create_account_req (Some (''Bob'', ''2222'', None))) None example_server = Inl Value_error"
  using internal_error_iff_malformed [OF example_server_reachable, of None "''t''" 0
      "Create_account_req (Some (''Bob'', ''2222'', None))" Value_error] by simp

text \<open>
  C20: a request whose flashed messages include an error changes neither the bank, nor
  the file, nor the session.
\<close>
theorem error_flash_keeps_state:
  assumes "dispatch now r req sess w = Inr (w', sess', resp, fl)" "(Error, m) \<in> set fl"
  shows "w' = w \<and> sess' = sess"
proof (cases req)
  case (Create_account_req form)
  show ?thesis using assms Create_account_req generated_not_error_prefix [of r]
    by (auto simp: create_account_view_def Let_def dest!: create_account_Inr_cases
        split: option.splits sum.splits if_splits prod.splits)
qed (use assms in \<open>auto simp: index_def login_def logout_def dashboard_def statement_def
      deposit_view_def withdraw_view_def transfer_view_def login_guard_def lookup_account_def Let_def
      split: option.splits sum.splits if_splits prod.splits\<close>)

lemma error_flash_keeps_state_witness:
  "dispatch ''t'' 0 (Login_req (Some (''1111111111'', ''0000''))) None example_server =
     Inr (example_server, None, Render Login_page, [(Error, Msg ''Invalid account number or PIN'')])"
proof -
  have h: "dispatch ''t'' 0 (Login_req (Some (''1111111111'', ''0000''))) None example_server =
     Inr (example_server, None, Render Login_page, [(Error, Msg ''Invalid account number or PIN'')])"
    by (simp add: login_def example_server_def)
  have "example_server = example_server \<and> (None :: acct_no option) = None"
    using error_flash_keeps_state [OF h] by simp
  with h show ?thesis by simp
qed

text \<open>
  C9: every step of the server other than a transfer from the session's account to
  itself keeps the ledger invariant of every account (each record's snapshot is the
  running sum of the amounts, the last one the balance).
\<close>
theorem step_keeps_ledger:
  fixes s :: "'m::linordered_ab_group_add server"
  assumes "reachable s" "bank_ledger_ok (bank s)" "server_step s e s'" "\<not> self_transfer e"
  shows "bank_ledger_ok (bank s')"
  using assms(3)
proof cases
  case (handled sess r now req s1 sess' resp fl)
  have "bank_ledger_ok (bank s1)"
    by (rule dispatch_keeps_ledger [OF assms(2) handled(5)]) (use handled(1) assms(4) in simp)
  then show ?thesis using handled(2) by simp
next
  case (internal_error sess r now req err)
  then show ?thesis using assms(2) by simp
next
  case restart
  then show ?thesis
    using assms(2) reachable_server_inv [OF assms(1)] by (simp add: server_inv_def persisted_def boot_def)
qed

lemma step_keeps_ledger_witness:
  "bank_ledger_ok (bank (example_server\<lparr>issued := {''1111111111''}\<rparr>))"
  using step_keeps_ledger [OF example_server_reachable example_server_ledger_ok example_login_step] by simp

text \<open>
  C21: for a logged-in user of a reachable state, the dashboard shows the session's
  account and the statement its transaction list, and neither changes anything.
\<close>
theorem logged_in_views:
  assumes "reachable s" "n \<in> issued s"
  shows "dispatch now r Dashboard_req (Some n) s =
           Inr (s, Some n, Render_dashboard (the (accounts (bank s) n)), []) \<and>
         dispatch now r Statement_req (Some n) s =
           Inr (s, Some n, Render_statement (transactions (the (accounts (bank s) n))), [])"
proof -
  have "n \<in> dom (accounts (bank s))"
    using reachable_server_inv [OF assms(1)] assms(2) by (auto simp: server_inv_def)
  then show ?thesis
    by (auto simp: dashboard_def statement_def login_guard_def lookup_account_def get_statement_def)
qed

lemma logged_in_views_witness:
  "dispatch ''t'' 0 Statement_req (Some ''1111111111'') (example_server\<lparr>issued := {''1111111111''}\<rparr>) =
     Inr (example_server\<lparr>issued := {''1111111111''}\<rparr>, Some ''1111111111'',
          Render_statement (transactions example_account), [])"
  using logged_in_views [OF example_session_reachable, of "''1111111111''" "''t''" 0]
  by (simp add: example_server_def)

text \<open>
  C24: from any state, a user can create an account with a valid PIN and a
  non-negative deposit and then log in with the number the creation reported and that
  PIN; the account holds what \<open>Account.__init__\<close> built.
\<close>
theorem create_then_login:
  fixes x :: "'m::linordered_ab_group_add"
  assumes "account_number_draw r" "pin_format_ok p" "0 \<le> x"
  shows "\<exists>s1 s2. server_step s (Request now r None (Create_account_req (Some (nm, p, Some x)))) s1 \<and>
    server_step s1 (Request now' r None (Login_req (Some (generate_account_number r, p)))) s2 \<and>
    accounts (bank s2) (generate_account_number r) = Some (new_account r now nm p x) \<and>
    generate_account_number r \<in> issued s2"
proof -
  let ?n = "generate_account_number r"
  let ?w1 = "save_data (s\<lparr>bank := (bank s)\<lparr>accounts := (accounts (bank s))(?n \<mapsto> new_account r now nm p x)\<rparr>\<rparr>)"
  let ?s1 = "?w1\<lparr>issued := issued ?w1 \<union> set_option None\<rparr>"
  have h1: "dispatch now r (Create_account_req (Some (nm, p, Some x))) None s =
      Inr (?w1, None, Redirect Index,
        [(Success, Msg (''Account created successfully! Your account number is: '' @ ?n))])"
    using create_account_view_success [of p x now r nm None s] assms(2,3) by simp
  have st1: "server_step s (Request now r None (Create_account_req (Some (nm, p, Some x)))) ?s1"
    by (rule server_step.handled [OF _ assms(1) h1]) simp
  have h2: "dispatch now' r (Login_req (Some (?n, p))) None ?s1 =
      Inr (?s1, Some ?n, Redirect Dashboard_page, [(Success, Msg ''Login successful!'')])"
    by (simp add: login_def new_account_def)
  have st2: "server_step ?s1 (Request now' r None (Login_req (Some (?n, p))))
      (?s1\<lparr>issued := issued ?s1 \<union> set_option (Some ?n)\<rparr>)"
    by (rule server_step.handled [OF _ assms(1) h2]) simp
  show ?thesis using st1 st2 by fastforce
qed

lemma create_then_login_witness:
  "\<exists>s1 s2. server_step (boot No_file) (Request ''t'' 1234567890 None
      (Create_account_req (Some (''Carol'', ''4321'', Some (0::int))))) s1 \<and>
    server_step s1 (Request ''u'' 1234567890 None (Login_req (Some (''1234567890'', ''4321'')))) s2 \<and>
    ''1234567890'' \<in> issued s2"
proof -
  have g: "generate_account_number 1234567890 = ''1234567890''"
    by (simp add: generate_account_number_def nat_to_str_step digit_char_def)
  have "account_number_draw 1234567890" "pin_format_ok ''4321''"
    by (simp_all add: account_number_draw_def randint_def pin_format_ok_def isdigit_def is_digit_char_def)
  from create_then_login [OF this, of "0::int" "boot No_file" "''t''" "''Carol''" "''u''"] show ?thesis
    unfolding g by blast
qed

end
