(* ===== verification/Spec2Isabelle.thy ===== *)
theory Spec2Isabelle
  imports Server
begin

text \<open>
  \<^bold>\<open>A verification library of the Flask bank application src/src/1.0/main.py.\<close>

  \<^bold>\<open>The program.\<close>  One Python file holds the domain classes \<open>Account\<close> (lines 14--50)
  and \<open>Bank\<close> (lines 52--104), a process-global \<open>bank\<close> loaded from the pickle file
  \<open>bank_data.pkl\<close> at start (line 103), and nine Flask routes (lines 106--232) that read
  forms, check the signed session cookie, call the domain methods and flash messages.
  Every route that changes an account ends with \<open>bank.save_data()\<close>, which pickles the
  whole bank.

  \<^bold>\<open>Theories, bottom up.\<close>
  \<^item> \<open>Bank_Prelude\<close>: the shared vocabulary (\<open>acct_no\<close>, \<open>timestamp\<close>), the
    \<open>named_theorems\<close> collections \<open>ledger_simps\<close> and \<open>bank_inv\<close>, and \<open>map_entry\<close>, the
    dictionary update \<open>d[k].f = ...\<close> that re-reads the entry at each statement, with its
    lemmas on maps.
  \<^item> \<open>Account_Number\<close>: \<open>Account.generate_account_number\<close> (\<open>str(random.randint(...))\<close>
    as \<open>nat_to_str\<close> of the draw \<open>r\<close>) and the PIN check \<open>len(pin) == 4 and pin.isdigit()\<close>.
  \<^item> \<open>Account\<close>: the records \<open>account\<close> and \<open>transaction\<close>, \<open>add_transaction\<close>,
    \<open>new_account\<close> (\<open>Account.__init__\<close>), \<open>deposit\<close>, \<open>withdraw\<close> (errors as
    \<open>Inl\<close> of \<open>bank_error\<close>), \<open>get_statement\<close>, and the ledger invariant \<open>ledger_ok\<close>.
  \<^item> \<open>Persistence\<close>: the record \<open>bank\<close>, the file \<open>bank_file\<close> (absent, a pickle, or
    unreadable), the process state \<open>world\<close>, \<open>save_data\<close> and \<open>load_data\<close>.
  \<^item> \<open>Bank\<close>: \<open>create_account\<close> and \<open>transfer\<close>, statement by statement, on \<open>world\<close>;
    the abstraction \<open>balances\<close> and the abstract transfer \<open>move\<close> (debit, then credit).
  \<^item> \<open>Routes\<close>: the nine handlers (\<open>index\<close>, \<open>create_account_view\<close>, \<open>login\<close>,
    \<open>logout\<close>, \<open>dashboard\<close>, \<open>deposit_view\<close>, \<open>withdraw_view\<close>, \<open>transfer_view\<close>,
    \<open>statement\<close>) as functions of the form, the session entry and the state, returning
    the new state, session entry, response and flashes, or \<open>Inl\<close> of the unhandled
    exception (\<open>ValueError\<close> of \<open>float\<close>, \<open>KeyError\<close> of \<open>bank.accounts[...]\<close>).
  \<^item> \<open>Server\<close>: the routing table \<open>dispatch\<close>, the server state (\<open>world\<close> plus the set
    \<open>issued\<close> of account numbers carried by cookies signed with the current secret key),
    process start \<open>boot\<close>, the step relation \<open>server_step\<close> (a handled request, a request
    ending in HTTP 500, a restart) and \<open>reachable\<close>.

  \<^bold>\<open>What is proved.\<close>
  \<^item> Domain: each branch of \<open>transfer\<close>, \<open>create_account\<close> and \<open>withdraw\<close>, errors
    included (C1--C5, C13); the account number format (C6); deposit composition (C7);
    the ledger invariant under the account operations (C8); \<open>transfer\<close> refines the
    abstract \<open>move\<close> of an amount between two keys of a map, a self-transfer included
    (C12).
  \<^item> Defects: a transfer to oneself breaks the ledger invariant (C10); a negative
    transfer amount debits the destination (C11), and the transfer route lets any
    logged-in user do it to any account (C26); account creation silently replaces an
    existing account when the draw collides (C25).
  \<^item> Server invariant \<open>server_inv\<close>, proved for every reachable state by rule induction
    over \<open>reachable\<close> with one preservation lemma per handler: the file holds the served
    bank (C16), so a restart reloads it; every valid session names an existing account
    (C17); every account is well formed (C18).
  \<^item> Authentication and errors: a session is issued only by a login with the account's
    PIN (C14); protected routes without a session redirect to login (C15); the only
    HTTP 500 is an unparsable number (C19); an error flash means nothing changed (C20).
  \<^item> Routes: every server step except a self-transfer keeps the ledger invariant (C9);
    dashboard and statement of a logged-in user (C21); deposit and withdraw routes on
    every branch (C22, C23); a new account can be logged into (C24, a possibility
    property proved constructively).

  \<^bold>\<open>Inputs and abstractions.\<close>  The clock \<open>datetime.now()\<close> is the input \<open>now\<close>; the random
  draw is the input \<open>r\<close>, and a server step requires \<open>account_number_draw r\<close>, the range
  of \<open>randint(10**9, 10**10 - 1)\<close>.  Amounts are generic in \<open>'m\<close>; the lemmas assume an
  (linearly) ordered abelian group, i.e. exact arithmetic, and the witnesses use \<open>int\<close>.
  A pickle is the bank it holds.  A request reads the clock once: the two records of a
  transfer share one timestamp, where the code calls \<open>datetime.now()\<close> in each
  \<open>add_transaction\<close>.  Reachable states start from an absent or unreadable file; a file
  written by an earlier run of the program is the file of a reachable state, reached by
  \<open>restart\<close>, and a file of any other origin is not modelled.  Requests are handled
  one at a time, as the Flask development server started by \<open>app.run\<close> does.  No loop
  of the program is unbounded, so no fuel is needed; the one recursion, \<open>nat_to_str\<close>,
  terminates by \<open>div 10\<close>.

  \<^bold>\<open>Floats.\<close>  Python amounts are floats; the model's \<open>'m\<close> is an exact ordered group.
  The theorems are stated so that each balance or snapshot is the result of the same
  operations the code performs, in the same order (e.g. a self-transfer leaves
  \<open>(b - x) + x\<close>, not \<open>b\<close>); no theorem claims a cancellation such as conservation
  of the total of balances, which rounding breaks.

  \<^bold>\<open>Not modelled.\<close>  The HTML templates and \<open>url_for\<close> (a response names the endpoint
  and the template variables only); the \<open>:.2f\<close> formatting of flashed balances; Flask's
  request parsing (a missing form field, HTTP 400), cookie signing and flash storage
  (the signature is the assumption that a request's session is \<open>None\<close> or in \<open>issued\<close>); the byte format of pickle and a
  crash in the middle of a write; Python floats (rounding, \<open>nan\<close>, \<open>inf\<close>: recorded as
  findings); Unicode digits accepted by \<open>str.isdigit\<close>; concurrent requests.
\<close>

end
